theory Spec2Isabelle
  imports Complex_Main "HOL-Library.Finite_Map"
begin

section \<open>JavaScript values\<close>

text \<open>
  The three React components keep plain JavaScript values in their state and exchange
  JSON with the backend. A value is one of the JSON shapes or \<open>undefined\<close>.
  \<^item> Numbers are IEEE doubles in the source; they are modelled as reals, so \<open>NaN\<close> and the
    infinities are not represented and rounding is ignored.
  \<^item> Strings are lists of characters, each character standing for one UTF-16 code unit
    in the range 0..255.
  \<^item> An object is a finite map from property names to values. The order in which
    JavaScript enumerates the properties (which only decides the order of the members in
    the text \<open>JSON.stringify\<close> produces) is not represented.
\<close>

datatype jsval =
    Undefined
  | Null
  | Bool bool
  | Num real
  | Str string
  | Arr "jsval list"
  | Obj "(string, jsval) fmap"

text \<open>\<open>!v\<close> is \<open>\<not> truthy v\<close>.\<close>

fun truthy :: "jsval \<Rightarrow> bool" where
  "truthy Undefined = False"
| "truthy Null = False"
| "truthy (Bool b) = b"
| "truthy (Num r) = (r \<noteq> 0)"
| "truthy (Str s) = (s \<noteq> [])"
| "truthy (Arr xs) = True"
| "truthy (Obj m) = True"

fun nullish :: "jsval \<Rightarrow> bool" where
  "nullish Undefined = True"
| "nullish Null = True"
| "nullish v = False"

subsection \<open>Decimal text of array indices and integers\<close>

definition digit :: "nat \<Rightarrow> char" where
  "digit d = char_of (48 + d)"

function show_nat :: "nat \<Rightarrow> string" where
  "show_nat n = (if n < 10 then [digit n] else show_nat (n div 10) @ [digit (n mod 10)])"
  by pat_completeness auto
termination
  by (relation "measure (\<lambda>n. n)") auto

declare show_nat.simps [simp del]

text \<open>
  \<open>Number.prototype.toString\<close> on the integers below \<open>10^21\<close>, where it is the plain
  decimal text. Every other number is left unspecified: its text depends on the
  double that the real stands for.
\<close>

definition show_num :: "real \<Rightarrow> string" where
  "show_num r =
     (if r = of_int \<lfloor>r\<rfloor> \<and> \<bar>r\<bar> < 10 ^ 21
      then (if r < 0 then ''-'' else '''') @ show_nat (nat \<bar>\<lfloor>r\<rfloor>\<bar>)
      else undefined)"

fun join_comma :: "string list \<Rightarrow> string" where
  "join_comma [] = ''''"
| "join_comma [s] = s"
| "join_comma (s # t # ss) = s @ '','' @ join_comma (t # ss)"

text \<open>\<open>String(v)\<close>, as \<open>new Error(v)\<close> applies it to its argument.\<close>

fun to_string :: "jsval \<Rightarrow> string" where
  "to_string Undefined = ''undefined''"
| "to_string Null = ''null''"
| "to_string (Bool b) = (if b then ''true'' else ''false'')"
| "to_string (Num r) = show_num r"
| "to_string (Str s) = s"
| "to_string (Arr xs) = join_comma (map (\<lambda>x. if nullish x then '''' else to_string x) xs)"
| "to_string (Obj m) = ''[object Object]''"

subsection \<open>Properties\<close>

text \<open>
  The own enumerable properties of a value: what the spread \<open>{...v}\<close> copies. An array
  and a string spread their elements under the index names; \<open>undefined\<close>, \<open>null\<close>,
  numbers and booleans spread nothing.
\<close>

fun own_props :: "jsval \<Rightarrow> (string, jsval) fmap" where
  "own_props (Obj m) = m"
| "own_props (Arr xs) = fmap_of_list (zip (map show_nat [0..<length xs]) xs)"
| "own_props (Str s) = fmap_of_list (zip (map show_nat [0..<length s]) (map (\<lambda>c. Str [c]) s))"
| "own_props v = fmempty"

text \<open>
  \<open>v[k]\<close> for a value that is neither \<open>undefined\<close> nor \<open>null\<close>: the own property, the
  \<open>length\<close> of an array or string, and \<open>undefined\<close> for a name that is absent. The
  properties every value inherits from its prototype (\<open>toString\<close>, \<open>constructor\<close>, ...)
  are functions, which \<open>jsval\<close> does not hold; they are not enumerable, so a spread of one
  copies nothing, as the spread of \<open>undefined\<close> does.
\<close>

definition read_prop :: "jsval \<Rightarrow> string \<Rightarrow> jsval" where
  "read_prop v k =
     (case fmlookup (own_props v) k of
        Some x \<Rightarrow> x
      | None \<Rightarrow>
          (case v of
             Arr xs \<Rightarrow> if k = ''length'' then Num (real (length xs)) else Undefined
           | Str s \<Rightarrow> if k = ''length'' then Num (real (length s)) else Undefined
           | _ \<Rightarrow> Undefined))"

text \<open>
  An exception: an \<open>Error\<close> with its message, or the \<open>TypeError\<close> of reading a property
  of \<open>undefined\<close> or \<open>null\<close>. The text of that \<open>TypeError\<close> is the one V8 prints.
\<close>

datatype js_error =
    Error string
  | TypeError jsval string

definition message :: "js_error \<Rightarrow> string" where
  "message e =
     (case e of
        Error m \<Rightarrow> m
      | TypeError v k \<Rightarrow>
          ''Cannot read properties of '' @ to_string v @ '' (reading '' @ [CHR 0x27] @ k @ [CHR 0x27] @ '')'')"

text \<open>\<open>v[k]\<close> and \<open>v.k\<close>: a \<open>TypeError\<close> on \<open>undefined\<close> and \<open>null\<close>.\<close>

definition get_prop :: "jsval \<Rightarrow> string \<Rightarrow> js_error + jsval" where
  "get_prop v k = (if nullish v then Inl (TypeError v k) else Inr (read_prop v k))"

text \<open>\<open>v?.k\<close>\<close>

definition opt_chain :: "jsval \<Rightarrow> string \<Rightarrow> jsval" where
  "opt_chain v k = (if nullish v then Undefined else read_prop v k)"

section \<open>The edit-configuration builder (VideoEditor.jsx)\<close>

text \<open>
  \<^verbatim>\<open>
  const updateEditConfig = (section, key, value) => {
    setEditConfig(prev => ({
      ...prev,
      [section]: { ...prev[section], [key]: value }
    }));
  };
  \<close>
  The updater React applies to the current configuration. It throws when the
  configuration is \<open>undefined\<close> or \<open>null\<close> (\<open>prev[section]\<close>).
\<close>

definition updateEditConfig :: "string \<Rightarrow> string \<Rightarrow> jsval \<Rightarrow> jsval \<Rightarrow> js_error + jsval" where
  "updateEditConfig sec key v prev =
     (case get_prop prev sec of
        Inl e \<Rightarrow> Inl e
      | Inr sub \<Rightarrow> Inr (Obj (fmupd sec (Obj (fmupd key v (own_props sub))) (own_props prev))))"

text \<open>
  The sub-map of a category: the properties the spread \<open>{...prev[section]}\<close> copies.
\<close>

definition category :: "jsval \<Rightarrow> string \<Rightarrow> (string, jsval) fmap" where
  "category c s = own_props (opt_chain c s)"

text \<open>Running one updater after another; an exception ends the run.\<close>

definition and_then :: "'e + 'a \<Rightarrow> ('a \<Rightarrow> 'e + 'b) \<Rightarrow> 'e + 'b" where
  "and_then r f = (case r of Inl e \<Rightarrow> Inl e | Inr x \<Rightarrow> f x)"

text \<open>The Reset button: \<^verbatim>\<open>onClick={() => setEditConfig({})}\<close>.\<close>

definition reset :: "jsval" where
  "reset = Obj fmempty"

subsection \<open>The controls of the editor\<close>

text \<open>
  Every input, slider and select of the editor calls \<open>updateEditConfig\<close> with a fixed
  category and parameter name. The value is what the handler computed from the control
  (\<open>parseFloat(e.target.value) || 0\<close>, \<open>value[0]\<close>, ...); it is passed on unchecked.
\<close>

datatype control =
    TrimStart | TrimEnd | ResizeWidth | ResizeHeight
  | FadeIn | FadeOut
  | OverlayText | OverlayFontsize | OverlayColor | OverlayStart | OverlayDuration | OverlayPosition
  | VolumeFactor

fun control_section :: "control \<Rightarrow> string" where
  "control_section TrimStart = ''trim''"
| "control_section TrimEnd = ''trim''"
| "control_section ResizeWidth = ''resize''"
| "control_section ResizeHeight = ''resize''"
| "control_section FadeIn = ''fade_in''"
| "control_section FadeOut = ''fade_out''"
| "control_section VolumeFactor = ''volume''"
| "control_section c = ''text_overlays''"

fun control_key :: "control \<Rightarrow> string" where
  "control_key TrimStart = ''start''"
| "control_key TrimEnd = ''end''"
| "control_key ResizeWidth = ''width''"
| "control_key ResizeHeight = ''height''"
| "control_key FadeIn = ''duration''"
| "control_key FadeOut = ''duration''"
| "control_key OverlayText = ''text''"
| "control_key OverlayFontsize = ''fontsize''"
| "control_key OverlayColor = ''color''"
| "control_key OverlayStart = ''start''"
| "control_key OverlayDuration = ''duration''"
| "control_key OverlayPosition = ''position''"
| "control_key VolumeFactor = ''factor''"

text \<open>
  The three switches of the Effects tab:
  \<^verbatim>\<open>
  onCheckedChange={(checked) => {
    if (checked) {
      updateEditConfig('effects', 'list', ['black_and_white']);
    }
  }}
  \<close>
\<close>

datatype effect_switch = BlackAndWhite | SpeedUp | SlowMotion

fun effect_id :: "effect_switch \<Rightarrow> string" where
  "effect_id BlackAndWhite = ''black_and_white''"
| "effect_id SpeedUp = ''speed_up''"
| "effect_id SlowMotion = ''slow_motion''"

definition onCheckedChange :: "effect_switch \<Rightarrow> bool \<Rightarrow> jsval \<Rightarrow> js_error + jsval" where
  "onCheckedChange sw checked prev =
     (if checked then updateEditConfig ''effects'' ''list'' (Arr [Str (effect_id sw)]) prev
      else Inr prev)"

datatype ui_event =
    Changed control jsval
  | Switched effect_switch bool
  | ResetClicked

fun handle :: "ui_event \<Rightarrow> jsval \<Rightarrow> js_error + jsval" where
  "handle (Changed c v) prev = updateEditConfig (control_section c) (control_key c) v prev"
| "handle (Switched sw checked) prev = onCheckedChange sw checked prev"
| "handle ResetClicked prev = Inr reset"

fun handle_all :: "ui_event list \<Rightarrow> jsval \<Rightarrow> js_error + jsval" where
  "handle_all [] c = Inr c"
| "handle_all (ev # evs) c = and_then (handle ev c) (handle_all evs)"

text \<open>\<open>editConfig.effects?.list\<close>: the list of effects the request carries.\<close>

definition effects_list :: "jsval \<Rightarrow> jsval" where
  "effects_list c = opt_chain (opt_chain c ''effects'') ''list''"

text \<open>At most one effect: no list, or the list of one switch.\<close>

definition one_effect :: "jsval \<Rightarrow> bool" where
  "one_effect c = (effects_list c = Undefined \<or> (\<exists>sw. effects_list c = Arr [Str (effect_id sw)]))"

text \<open>At most one effect identifier, whichever: no list, or a list of at most one element.\<close>

definition few_effects :: "jsval \<Rightarrow> bool" where
  "few_effects c = (effects_list c = Undefined \<or> (\<exists>xs. effects_list c = Arr xs \<and> length xs \<le> 1))"

section \<open>Requests, replies and effects\<close>

text \<open>
  A call of \<open>fetch\<close>. The payload is the value handed to \<open>JSON.stringify\<close> for the body;
  a \<open>fetch\<close> without options is a \<open>GET\<close> without a body.
\<close>

datatype request = Request (url: string) (verb: string) (payload: "jsval option")

text \<open>What a handler does besides changing the state of its component, in order.\<close>

datatype effect =
    Fetch request
  | Alert string
  | ConsoleError string js_error
  | OnSave jsval

text \<open>
  How a request ends for the client: \<open>fetch\<close> rejects, or it resolves to a response with
  its \<open>ok\<close> flag and the result of \<open>response.json()\<close>, which rejects when the body is not
  JSON.
\<close>

datatype outcome =
    Rejected js_error
  | Resolved bool "js_error + jsval"

text \<open>
  \<^verbatim>\<open>
  const response = await fetch(...);
  const data = await response.json();
  \<close>
\<close>

definition json_body :: "outcome \<Rightarrow> js_error + jsval" where
  "json_body out = (case out of Rejected e \<Rightarrow> Inl e | Resolved ok body \<Rightarrow> body)"

definition is_ok :: "outcome \<Rightarrow> bool" where
  "is_ok out = (case out of Rejected e \<Rightarrow> False | Resolved ok body \<Rightarrow> ok)"

text \<open>\<open>throw new Error(data.error || fallback)\<close>\<close>

definition throw_error :: "jsval \<Rightarrow> string \<Rightarrow> js_error + 'a" where
  "throw_error data fallback =
     and_then (get_prop data ''error'')
       (\<lambda>m. Inl (Error (to_string (if truthy m then m else Str fallback))))"

text \<open>
  An \<open>async\<close> handler runs to its first \<open>await fetch(...)\<close> when it is called, and from
  there when the reply arrives. \<open>Returned\<close>: the handler ended before any request;
  \<open>Awaiting\<close>: it waits for the reply of the request it has just sent.
\<close>

datatype 'a started =
    Returned 'a "effect list"
  | Awaiting 'a "effect list"

text \<open>The whole call, given what the rest of the handler does when the reply is there.\<close>

definition complete :: "'a started \<Rightarrow> ('a \<Rightarrow> 'a \<times> effect list) \<Rightarrow> 'a \<times> effect list" where
  "complete s k =
     (case s of
        Returned st fx \<Rightarrow> (st, fx)
      | Awaiting st fx \<Rightarrow> (case k st of (st', fx') \<Rightarrow> (st', fx @ fx')))"

fun requests :: "effect list \<Rightarrow> request list" where
  "requests [] = []"
| "requests (Fetch r # fx) = r # requests fx"
| "requests (e # fx) = requests fx"

fun on_save_calls :: "effect list \<Rightarrow> jsval list" where
  "on_save_calls [] = []"
| "on_save_calls (OnSave v # fx) = v # on_save_calls fx"
| "on_save_calls (e # fx) = on_save_calls fx"

fun alerts :: "effect list \<Rightarrow> string list" where
  "alerts [] = []"
| "alerts (Alert m # fx) = m # alerts fx"
| "alerts (e # fx) = alerts fx"

section \<open>The editor component (VideoEditor.jsx)\<close>

record editor =
  editConfig :: jsval
  selectedPreset :: string
  isEditing :: bool

text \<open>
  \<^verbatim>\<open>
  const applyPreset = async (presetKey) => {
    try {
      const response = await fetch('/api/editor/presets');
      const data = await response.json();
      const preset = data.presets[presetKey];
      if (preset) {
        setEditConfig(preset.config);
        setSelectedPreset(presetKey);
      }
    } catch (error) {
      console.error('Error applying preset:', error);
    }
  };
  \<close>
\<close>

definition applyPreset_start :: "editor \<Rightarrow> editor started" where
  "applyPreset_start st = Awaiting st [Fetch (Request ''/api/editor/presets'' ''GET'' None)]"

definition applyPreset_finish :: "string \<Rightarrow> outcome \<Rightarrow> editor \<Rightarrow> editor \<times> effect list" where
  "applyPreset_finish presetKey out st =
     (case and_then (json_body out)
             (\<lambda>data. and_then (get_prop data ''presets'') (\<lambda>ps. get_prop ps presetKey)) of
        Inl e \<Rightarrow> (st, [ConsoleError ''Error applying preset:'' e])
      | Inr preset \<Rightarrow>
          if truthy preset
          then (st\<lparr>editConfig := read_prop preset ''config'', selectedPreset := presetKey\<rparr>, [])
          else (st, []))"

definition applyPreset :: "string \<Rightarrow> outcome \<Rightarrow> editor \<Rightarrow> editor \<times> effect list" where
  "applyPreset presetKey out st = complete (applyPreset_start st) (applyPreset_finish presetKey out)"

text \<open>
  \<^verbatim>\<open>
  const saveEdits = async () => {
    if (!videoPath) { alert('No video selected for editing'); return; }
    setIsEditing(true);
    try {
      const response = await fetch('/api/editor/edit', {
        method: 'POST',
        headers: { 'Content-Type': 'application/json' },
        body: JSON.stringify({ video_path: videoPath, edit_config: editConfig }),
      });
      const data = await response.json();
      if (response.ok) {
        onSave?.(data.edited_path);
        alert('Video edited successfully!');
      } else {
        throw new Error(data.error || 'Failed to edit video');
      }
    } catch (error) {
      console.error('Error editing video:', error);
      alert('Error editing video: ' + error.message);
    } finally {
      setIsEditing(false);
    }
  };
  \<close>
  \<open>videoPath\<close> and \<open>onSave\<close> are the properties the parent passes; \<open>has_onSave\<close> says
  whether a callback was supplied (\<open>onSave?.(...)\<close> does not evaluate its argument when
  there is none).
\<close>

definition edit_body :: "jsval \<Rightarrow> jsval \<Rightarrow> jsval" where
  "edit_body videoPath cfg = Obj (fmap_of_list [(''video_path'', videoPath), (''edit_config'', cfg)])"

definition saveEdits_start :: "jsval \<Rightarrow> editor \<Rightarrow> editor started" where
  "saveEdits_start videoPath st =
     (if \<not> truthy videoPath then Returned st [Alert ''No video selected for editing'']
      else Awaiting (st\<lparr>isEditing := True\<rparr>)
             [Fetch (Request ''/api/editor/edit'' ''POST'' (Some (edit_body videoPath (editConfig st))))])"

definition saveEdits_finish :: "bool \<Rightarrow> outcome \<Rightarrow> editor \<Rightarrow> editor \<times> effect list" where
  "saveEdits_finish has_onSave out st =
     (case and_then (json_body out)
             (\<lambda>data.
                if is_ok out
                then (if has_onSave
                      then and_then (get_prop data ''edited_path'')
                             (\<lambda>p. Inr [OnSave p, Alert ''Video edited successfully!''])
                      else Inr [Alert ''Video edited successfully!''])
                else throw_error data ''Failed to edit video'') of
        Inr fx \<Rightarrow> (st\<lparr>isEditing := False\<rparr>, fx)
      | Inl e \<Rightarrow>
          (st\<lparr>isEditing := False\<rparr>,
           [ConsoleError ''Error editing video:'' e, Alert (''Error editing video: '' @ message e)]))"

definition saveEdits :: "jsval \<Rightarrow> bool \<Rightarrow> outcome \<Rightarrow> editor \<Rightarrow> editor \<times> effect list" where
  "saveEdits videoPath has_onSave out st =
     complete (saveEdits_start videoPath st) (saveEdits_finish has_onSave out)"

text \<open>The editor as it is mounted: \<open>useState({})\<close>, \<open>useState('')\<close>, \<open>useState(false)\<close>.\<close>

definition editor_init :: editor where
  "editor_init = \<lparr>editConfig = Obj fmempty, selectedPreset = [], isEditing = False\<rparr>"

text \<open>Control events on the editor; an exception of an updater ends the run.\<close>

definition edit_with :: "ui_event list \<Rightarrow> editor \<Rightarrow> js_error + editor" where
  "edit_with evs st =
     and_then (handle_all evs (editConfig st)) (\<lambda>c. Inr (st\<lparr>editConfig := c\<rparr>))"

section \<open>The generator component (VideoGenerator)\<close>

text \<open>
  The state of the component. \<open>progressInterval\<close> says whether the timer that
  \<open>setInterval\<close> started is still armed; \<open>duration\<close> is the array the slider holds.
\<close>

record generator =
  script :: string
  selectedStyle :: string
  duration :: "real list"
  aspectRatio :: string
  isGenerating :: bool
  generatedVideo :: jsval
  styles :: jsval
  progress :: real
  progressInterval :: bool

text \<open>
  The component as it is mounted: \<open>useState('')\<close>, \<open>useState('real')\<close>, \<open>useState([5])\<close>,
  \<open>useState('landscape')\<close>, \<open>useState(false)\<close>, \<open>useState(null)\<close>, \<open>useState({})\<close>,
  \<open>useState(0)\<close>, and no timer.
\<close>

definition generator_init :: generator where
  "generator_init =
     \<lparr>script = [], selectedStyle = ''real'', duration = [5], aspectRatio = ''landscape'',
      isGenerating = False, generatedVideo = Null, styles = Obj fmempty, progress = 0,
      progressInterval = False\<rparr>"

text \<open>
  \<open>String.prototype.trim\<close> removes white space and line terminators from both ends.
  Among the code units 0..255 these are tab, line feed, vertical tab, form feed,
  carriage return, space and the no-break space.
\<close>

definition js_white :: "char \<Rightarrow> bool" where
  "js_white c = (of_char c \<in> {9, 10, 11, 12, 13, 32, 160 :: nat})"

definition trim :: "string \<Rightarrow> string" where
  "trim s = rev (dropWhile js_white (rev (dropWhile js_white s)))"

text \<open>
  \<^verbatim>\<open>
  const generateVideo = async () => {
    if (!script.trim()) { alert('Please enter a script'); return; }
    setIsGenerating(true);
    setProgress(0);
    const progressInterval = setInterval(() => {
      setProgress(prev => {
        if (prev >= 90) { clearInterval(progressInterval); return 90; }
        return prev + Math.random() * 10;
      });
    }, 500);
    try {
      const response = await fetch('/api/video/generate', {
        method: 'POST',
        headers: { 'Content-Type': 'application/json' },
        body: JSON.stringify({ script, style: selectedStyle, duration: duration[0],
                               aspect_ratio: aspectRatio }),
      });
      const data = await response.json();
      if (response.ok) {
        setGeneratedVideo(data);
        setProgress(100);
      } else {
        throw new Error(data.error || 'Failed to generate video');
      }
    } catch (error) {
      console.error('Error generating video:', error);
      alert('Error generating video: ' + error.message);
    } finally {
      clearInterval(progressInterval);
      setIsGenerating(false);
    }
  };
  \<close>
\<close>

definition generate_body :: "generator \<Rightarrow> jsval" where
  "generate_body st =
     Obj (fmap_of_list
       [(''script'', Str (script st)),
        (''style'', Str (selectedStyle st)),
        (''duration'', (case duration st of [] \<Rightarrow> Undefined | d # ds \<Rightarrow> Num d)),
        (''aspect_ratio'', Str (aspectRatio st))])"

definition generateVideo_start :: "generator \<Rightarrow> generator started" where
  "generateVideo_start st =
     (if \<not> truthy (Str (trim (script st))) then Returned st [Alert ''Please enter a script'']
      else Awaiting (st\<lparr>isGenerating := True, progress := 0, progressInterval := True\<rparr>)
             [Fetch (Request ''/api/video/generate'' ''POST'' (Some (generate_body st)))])"

text \<open>
  One firing of the timer, 500 ms after the last; \<open>r\<close> is the number \<open>Math.random()\<close>
  returns, which lies in \<open>[0, 1)\<close>. A timer that was cleared does not fire.
\<close>

definition progress_tick :: "real \<Rightarrow> generator \<Rightarrow> generator" where
  "progress_tick r st =
     (if progressInterval st
      then (if progress st \<ge> 90 then st\<lparr>progressInterval := False, progress := 90\<rparr>
            else st\<lparr>progress := progress st + r * 10\<rparr>)
      else st)"

fun progress_ticks :: "real list \<Rightarrow> generator \<Rightarrow> generator" where
  "progress_ticks [] st = st"
| "progress_ticks (r # rs) st = progress_ticks rs (progress_tick r st)"

definition generateVideo_finish :: "outcome \<Rightarrow> generator \<Rightarrow> generator \<times> effect list" where
  "generateVideo_finish out st =
     (case and_then (json_body out)
             (\<lambda>data. if is_ok out then Inr data else throw_error data ''Failed to generate video'') of
        Inr data \<Rightarrow>
          (st\<lparr>generatedVideo := data, progress := 100, progressInterval := False,
              isGenerating := False\<rparr>, [])
      | Inl e \<Rightarrow>
          (st\<lparr>progressInterval := False, isGenerating := False\<rparr>,
           [ConsoleError ''Error generating video:'' e,
            Alert (''Error generating video: '' @ message e)]))"

text \<open>
  A whole call: the timer fires with the random numbers \<open>rs\<close> while the request is
  outstanding, then the reply arrives.
\<close>

definition generateVideo :: "real list \<Rightarrow> outcome \<Rightarrow> generator \<Rightarrow> generator \<times> effect list" where
  "generateVideo rs out st =
     complete (generateVideo_start st) (\<lambda>st1. generateVideo_finish out (progress_ticks rs st1))"

section \<open>The Azure panel (AzureIntegration)\<close>

record azure =
  azureStatus :: jsval
  uploadStatus :: jsval
  streamingInfo :: jsval
  videoAnalysis :: jsval
  isUploading :: bool
  isAnalyzing :: bool

text \<open>
  \<^verbatim>\<open>
  const checkAzureStatus = async () => {
    try {
      const response = await fetch('/api/azure/status');
      const data = await response.json();
      setAzureStatus(data);
    } catch (error) {
      console.error('Error checking Azure status:', error);
    }
  };
  \<close>
\<close>

definition status_request :: request where
  "status_request = Request ''/api/azure/status'' ''GET'' None"

definition checkAzureStatus_start :: "azure \<Rightarrow> azure started" where
  "checkAzureStatus_start st = Awaiting st [Fetch status_request]"

definition checkAzureStatus_finish :: "outcome \<Rightarrow> azure \<Rightarrow> azure \<times> effect list" where
  "checkAzureStatus_finish out st =
     (case json_body out of
        Inl e \<Rightarrow> (st, [ConsoleError ''Error checking Azure status:'' e])
      | Inr data \<Rightarrow> (st\<lparr>azureStatus := data\<rparr>, []))"

text \<open>
  \<^verbatim>\<open>
  const createStreamingEndpoints = async (videoUrl) => {
    try {
      const response = await fetch('/api/azure/stream', {
        method: 'POST',
        headers: { 'Content-Type': 'application/json' },
        body: JSON.stringify({ video_url: videoUrl }),
      });
      const data = await response.json();
      if (response.ok) {
        setStreamingInfo(data.streaming);
      }
    } catch (error) {
      console.error('Error creating streaming endpoints:', error);
    }
  };
  \<close>
\<close>

definition stream_request :: "jsval \<Rightarrow> request" where
  "stream_request videoUrl =
     Request ''/api/azure/stream'' ''POST'' (Some (Obj (fmap_of_list [(''video_url'', videoUrl)])))"

definition createStreamingEndpoints_start :: "jsval \<Rightarrow> azure \<Rightarrow> azure started" where
  "createStreamingEndpoints_start videoUrl st = Awaiting st [Fetch (stream_request videoUrl)]"

definition createStreamingEndpoints_finish :: "outcome \<Rightarrow> azure \<Rightarrow> azure \<times> effect list" where
  "createStreamingEndpoints_finish out st =
     (case and_then (json_body out)
             (\<lambda>data. if is_ok out
                      then and_then (get_prop data ''streaming'') (\<lambda>s. Inr (st\<lparr>streamingInfo := s\<rparr>))
                      else Inr st) of
        Inl e \<Rightarrow> (st, [ConsoleError ''Error creating streaming endpoints:'' e])
      | Inr st' \<Rightarrow> (st', []))"

text \<open>
  \<^verbatim>\<open>
  const uploadToAzure = async () => {
    if (!videoPath) { alert('No video selected for upload'); return; }
    setIsUploading(true);
    try {
      const response = await fetch('/api/azure/upload', {
        method: 'POST',
        headers: { 'Content-Type': 'application/json' },
        body: JSON.stringify({ video_path: videoPath, container_name: 'generated-videos' }),
      });
      const data = await response.json();
      if (response.ok) {
        setUploadStatus(data);
        // Automatically create streaming endpoints
        createStreamingEndpoints(data.blob_url);
      } else {
        throw new Error(data.error || 'Failed to upload to Azure');
      }
    } catch (error) {
      console.error('Error uploading to Azure:', error);
      alert('Error uploading to Azure: ' + error.message);
    } finally {
      setIsUploading(false);
    }
  };
  \<close>
  \<open>createStreamingEndpoints\<close> is called without \<open>await\<close>: it sends its request and
  \<open>uploadToAzure\<close> goes on to its \<open>finally\<close> block while that request is outstanding.
\<close>

definition upload_request :: "jsval \<Rightarrow> request" where
  "upload_request videoPath =
     Request ''/api/azure/upload'' ''POST''
       (Some (Obj (fmap_of_list
          [(''video_path'', videoPath), (''container_name'', Str ''generated-videos'')])))"

definition uploadToAzure_start :: "jsval \<Rightarrow> azure \<Rightarrow> azure started" where
  "uploadToAzure_start videoPath st =
     (if \<not> truthy videoPath then Returned st [Alert ''No video selected for upload'']
      else Awaiting (st\<lparr>isUploading := True\<rparr>) [Fetch (upload_request videoPath)])"

definition upload_failed :: "js_error \<Rightarrow> azure \<Rightarrow> azure \<times> effect list" where
  "upload_failed e st =
     (st\<lparr>isUploading := False\<rparr>,
      [ConsoleError ''Error uploading to Azure:'' e, Alert (''Error uploading to Azure: '' @ message e)])"

definition uploadToAzure_finish :: "outcome \<Rightarrow> azure \<Rightarrow> azure \<times> effect list" where
  "uploadToAzure_finish out st =
     (case json_body out of
        Inl e \<Rightarrow> upload_failed e st
      | Inr data \<Rightarrow>
          if is_ok out
          then (case get_prop data ''blob_url'' of
                  Inl e \<Rightarrow> upload_failed e (st\<lparr>uploadStatus := data\<rparr>)
                | Inr videoUrl \<Rightarrow>
                    (case createStreamingEndpoints_start videoUrl (st\<lparr>uploadStatus := data\<rparr>) of
                       Awaiting st' fx \<Rightarrow> (st'\<lparr>isUploading := False\<rparr>, fx)
                     | Returned st' fx \<Rightarrow> (st'\<lparr>isUploading := False\<rparr>, fx)))
          else (case throw_error data ''Failed to upload to Azure'' of
                  Inl e \<Rightarrow> upload_failed e st
                | Inr (u :: unit) \<Rightarrow> (st\<lparr>isUploading := False\<rparr>, [])))"

definition uploadToAzure :: "jsval \<Rightarrow> outcome \<Rightarrow> azure \<Rightarrow> azure \<times> effect list" where
  "uploadToAzure videoPath out st = complete (uploadToAzure_start videoPath st) (uploadToAzure_finish out)"

text \<open>
  \<^verbatim>\<open>
  const analyzeVideo = async () => {
    if (!uploadStatus?.blob_url) { alert('Please upload video to Azure first'); return; }
    setIsAnalyzing(true);
    try {
      const response = await fetch('/api/azure/analyze', {
        method: 'POST',
        headers: { 'Content-Type': 'application/json' },
        body: JSON.stringify({ video_url: uploadStatus.blob_url }),
      });
      const data = await response.json();
      if (response.ok) {
        setVideoAnalysis(data.analysis);
      } else {
        throw new Error(data.error || 'Failed to analyze video');
      }
    } catch (error) {
      console.error('Error analyzing video:', error);
      alert('Error analyzing video: ' + error.message);
    } finally {
      setIsAnalyzing(false);
    }
  };
  \<close>
\<close>

definition analyze_request :: "jsval \<Rightarrow> request" where
  "analyze_request videoUrl =
     Request ''/api/azure/analyze'' ''POST'' (Some (Obj (fmap_of_list [(''video_url'', videoUrl)])))"

definition analyzeVideo_start :: "azure \<Rightarrow> azure started" where
  "analyzeVideo_start st =
     (if \<not> truthy (opt_chain (uploadStatus st) ''blob_url'')
      then Returned st [Alert ''Please upload video to Azure first'']
      else Awaiting (st\<lparr>isAnalyzing := True\<rparr>)
             [Fetch (analyze_request (read_prop (uploadStatus st) ''blob_url''))])"

definition analyzeVideo_finish :: "outcome \<Rightarrow> azure \<Rightarrow> azure \<times> effect list" where
  "analyzeVideo_finish out st =
     (case and_then (json_body out)
             (\<lambda>data. if is_ok out then get_prop data ''analysis''
                      else throw_error data ''Failed to analyze video'') of
        Inr a \<Rightarrow> (st\<lparr>videoAnalysis := a, isAnalyzing := False\<rparr>, [])
      | Inl e \<Rightarrow>
          (st\<lparr>isAnalyzing := False\<rparr>,
           [ConsoleError ''Error analyzing video:'' e, Alert (''Error analyzing video: '' @ message e)]))"

text \<open>
  \<^verbatim>\<open>
  const runCompleteWorkflow = async () => {
    if (!videoPath) { alert('No video selected'); return; }
    setIsUploading(true);
    try {
      const response = await fetch('/api/azure/workflow', {
        method: 'POST',
        headers: { 'Content-Type': 'application/json' },
        body: JSON.stringify({ video_path: videoPath }),
      });
      const data = await response.json();
      if (response.ok) {
        const workflow = data.workflow;
        if (workflow.upload?.status === 'success') {
          setUploadStatus({ blob_url: workflow.upload.blob_url, status: 'uploaded' });
        }
        if (workflow.streaming?.status === 'success') {
          setStreamingInfo(workflow.streaming.endpoints);
        }
        if (workflow.analysis?.status === 'success') {
          setVideoAnalysis(workflow.analysis.insights);
        }
      } else {
        throw new Error(data.error || 'Workflow failed');
      }
    } catch (error) {
      console.error('Error running workflow:', error);
      alert('Error running workflow: ' + error.message);
    } finally {
      setIsUploading(false);
    }
  };
  \<close>
\<close>

definition workflow_request :: "jsval \<Rightarrow> request" where
  "workflow_request videoPath =
     Request ''/api/azure/workflow'' ''POST'' (Some (Obj (fmap_of_list [(''video_path'', videoPath)])))"

definition runCompleteWorkflow_start :: "jsval \<Rightarrow> azure \<Rightarrow> azure started" where
  "runCompleteWorkflow_start videoPath st =
     (if \<not> truthy videoPath then Returned st [Alert ''No video selected'']
      else Awaiting (st\<lparr>isUploading := True\<rparr>) [Fetch (workflow_request videoPath)])"

text \<open>\<open>workflow.part?.status === 'success'\<close>\<close>

definition succeeded :: "jsval \<Rightarrow> bool" where
  "succeeded part = (opt_chain part ''status'' = Str ''success'')"

definition workflow_results :: "jsval \<Rightarrow> azure \<Rightarrow> js_error + azure" where
  "workflow_results workflow st =
     and_then (get_prop workflow ''upload'') (\<lambda>up.
       let st1 = (if succeeded up
                  then st\<lparr>uploadStatus := Obj (fmap_of_list
                         [(''blob_url'', read_prop up ''blob_url''), (''status'', Str ''uploaded'')])\<rparr>
                  else st);
           streaming = read_prop workflow ''streaming'';
           st2 = (if succeeded streaming
                  then st1\<lparr>streamingInfo := read_prop streaming ''endpoints''\<rparr> else st1);
           analysis = read_prop workflow ''analysis''
       in Inr (if succeeded analysis
               then st2\<lparr>videoAnalysis := read_prop analysis ''insights''\<rparr> else st2))"

definition runCompleteWorkflow_finish :: "outcome \<Rightarrow> azure \<Rightarrow> azure \<times> effect list" where
  "runCompleteWorkflow_finish out st =
     (case and_then (json_body out)
             (\<lambda>data. if is_ok out
                      then and_then (get_prop data ''workflow'') (\<lambda>w. workflow_results w st)
                      else throw_error data ''Workflow failed'') of
        Inr st' \<Rightarrow> (st'\<lparr>isUploading := False\<rparr>, [])
      | Inl e \<Rightarrow>
          (st\<lparr>isUploading := False\<rparr>,
           [ConsoleError ''Error running workflow:'' e, Alert (''Error running workflow: '' @ message e)]))"

subsection \<open>The panel as the user and the network drive it\<close>

text \<open>
  The three buttons are disabled by
  \<^verbatim>\<open>
  disabled={isUploading || !videoPath || !azureStatus?.configured}   (Upload to Azure)
  disabled={isAnalyzing || !uploadStatus?.blob_url}                   (Analyze Video)
  disabled={isUploading || !videoPath || !azureStatus?.configured}   (Complete Workflow)
  \<close>
  and a disabled button does not call its handler.
\<close>

definition upload_disabled :: "jsval \<Rightarrow> azure \<Rightarrow> bool" where
  "upload_disabled videoPath st =
     (isUploading st \<or> \<not> truthy videoPath \<or> \<not> truthy (opt_chain (azureStatus st) ''configured''))"

definition analyze_disabled :: "azure \<Rightarrow> bool" where
  "analyze_disabled st = (isAnalyzing st \<or> \<not> truthy (opt_chain (uploadStatus st) ''blob_url''))"

text \<open>
  The panel between two events: the state of the component and the requests that were
  sent and not yet answered. JavaScript runs one handler at a time, so an execution of
  the panel is a sequence of events: a click on an enabled button, or the arrival of
  the reply to an outstanding request, which resumes the handler that awaits it.
\<close>

record panel =
  ui :: azure
  in_flight :: "request list"

datatype azure_event =
    ClickUpload
  | ClickAnalyze
  | ClickWorkflow
  | Arrives request outcome

definition add_requests :: "azure started \<Rightarrow> panel \<Rightarrow> panel" where
  "add_requests s p =
     (case s of
        Returned st fx \<Rightarrow> \<lparr>ui = st, in_flight = in_flight p @ requests fx\<rparr>
      | Awaiting st fx \<Rightarrow> \<lparr>ui = st, in_flight = in_flight p @ requests fx\<rparr>)"

text \<open>The handler that awaits the reply to a request, by the endpoint it was sent to.\<close>

definition resume :: "request \<Rightarrow> outcome \<Rightarrow> azure \<Rightarrow> azure \<times> effect list" where
  "resume r out st =
     (if url r = ''/api/azure/status'' then checkAzureStatus_finish out st
      else if url r = ''/api/azure/upload'' then uploadToAzure_finish out st
      else if url r = ''/api/azure/stream'' then createStreamingEndpoints_finish out st
      else if url r = ''/api/azure/analyze'' then analyzeVideo_finish out st
      else runCompleteWorkflow_finish out st)"

fun fire :: "jsval \<Rightarrow> azure_event \<Rightarrow> panel \<Rightarrow> panel option" where
  "fire videoPath ClickUpload p =
     (if upload_disabled videoPath (ui p) then None
      else Some (add_requests (uploadToAzure_start videoPath (ui p)) p))"
| "fire videoPath ClickAnalyze p =
     (if analyze_disabled (ui p) then None
      else Some (add_requests (analyzeVideo_start (ui p)) p))"
| "fire videoPath ClickWorkflow p =
     (if upload_disabled videoPath (ui p) then None
      else Some (add_requests (runCompleteWorkflow_start videoPath (ui p)) p))"
| "fire videoPath (Arrives r out) p =
     (if r \<in> set (in_flight p)
      then (case resume r out (ui p) of
              (st', fx) \<Rightarrow> Some \<lparr>ui = st', in_flight = remove1 r (in_flight p) @ requests fx\<rparr>)
      else None)"

fun run :: "jsval \<Rightarrow> azure_event list \<Rightarrow> panel \<Rightarrow> panel option" where
  "run videoPath [] p = Some p"
| "run videoPath (ev # evs) p =
     (case fire videoPath ev p of None \<Rightarrow> None | Some p' \<Rightarrow> run videoPath evs p')"

text \<open>
  The panel as it is mounted: every \<open>useState(null)\<close> and \<open>useState(false)\<close>, and the
  request \<open>useEffect(() => { checkAzureStatus(); }, [])\<close> has sent.
\<close>

definition mounted :: panel where
  "mounted =
     \<lparr>ui = \<lparr>azureStatus = Null, uploadStatus = Null, streamingInfo = Null, videoAnalysis = Null,
             isUploading = False, isAnalyzing = False\<rparr>,
      in_flight = [status_request]\<rparr>"

text \<open>The outstanding requests that a busy flag guards.\<close>

definition uploads_in_flight :: "panel \<Rightarrow> nat" where
  "uploads_in_flight p =
     length (filter (\<lambda>r. url r = ''/api/azure/upload'' \<or> url r = ''/api/azure/workflow'') (in_flight p))"

definition analyses_in_flight :: "panel \<Rightarrow> nat" where
  "analyses_in_flight p = length (filter (\<lambda>r. url r = ''/api/azure/analyze'') (in_flight p))"

text \<open>
  The invariant behind the guard: each flag is set exactly while one request it guards
  is outstanding, and every outstanding request went to one of the five endpoints.
\<close>

definition known_url :: "string \<Rightarrow> bool" where
  "known_url u =
     (u = ''/api/azure/status'' \<or> u = ''/api/azure/upload'' \<or> u = ''/api/azure/stream''
      \<or> u = ''/api/azure/analyze'' \<or> u = ''/api/azure/workflow'')"

definition flags_match :: "panel \<Rightarrow> bool" where
  "flags_match p =
     (uploads_in_flight p = (if isUploading (ui p) then 1 else 0)
      \<and> analyses_in_flight p = (if isAnalyzing (ui p) then 1 else 0)
      \<and> list_all (\<lambda>r. known_url (url r)) (in_flight p))"

section \<open>The editor as the user and the network drive it\<close>

text \<open>
  The preset buttons have no \<open>disabled\<close> attribute:
  \<^verbatim>\<open>
  <Button ... onClick={() => applyPreset(key)}>
  <Button onClick={saveEdits} disabled={isEditing || !videoPath}>
  \<close>
  An outstanding request of the editor is kept with the handler that awaits its reply;
  for \<open>applyPreset\<close> that is the call with the preset key it was given.
\<close>

datatype editor_wait =
    AwaitsPresets string
  | AwaitsEdit

record editor_panel =
  ed :: editor
  waiting :: "(request \<times> editor_wait) list"

datatype editor_event =
    ClickPreset string
  | ClickApplyEdits
  | Uses ui_event
  | EditorArrives request editor_wait outcome

definition launch :: "editor_wait \<Rightarrow> editor started \<Rightarrow> editor_panel \<Rightarrow> editor_panel" where
  "launch w s p =
     (case s of
        Returned st fx \<Rightarrow> \<lparr>ed = st, waiting = waiting p @ map (\<lambda>r. (r, w)) (requests fx)\<rparr>
      | Awaiting st fx \<Rightarrow> \<lparr>ed = st, waiting = waiting p @ map (\<lambda>r. (r, w)) (requests fx)\<rparr>)"

text \<open>
  \<open>None\<close>: the event cannot happen (the button is disabled, or no such request is
  outstanding), or the updater threw and React unmounted the component. An exception
  while the component renders its new state is not modelled: the executions of the model
  include every execution of the component. The effects of the handler are returned
  with the new state.
\<close>

fun editor_step ::
  "jsval \<Rightarrow> bool \<Rightarrow> editor_event \<Rightarrow> editor_panel \<Rightarrow> (editor_panel \<times> effect list) option" where
  "editor_step videoPath has_onSave (ClickPreset k) p =
     (case applyPreset_start (ed p) of
        Returned st fx \<Rightarrow> Some (launch (AwaitsPresets k) (Returned st fx) p, fx)
      | Awaiting st fx \<Rightarrow> Some (launch (AwaitsPresets k) (Awaiting st fx) p, fx))"
| "editor_step videoPath has_onSave ClickApplyEdits p =
     (if isEditing (ed p) \<or> \<not> truthy videoPath then None
      else (case saveEdits_start videoPath (ed p) of
              Returned st fx \<Rightarrow> Some (launch AwaitsEdit (Returned st fx) p, fx)
            | Awaiting st fx \<Rightarrow> Some (launch AwaitsEdit (Awaiting st fx) p, fx)))"
| "editor_step videoPath has_onSave (Uses ev) p =
     (case edit_with [ev] (ed p) of Inl e \<Rightarrow> None | Inr st \<Rightarrow> Some (p\<lparr>ed := st\<rparr>, []))"
| "editor_step videoPath has_onSave (EditorArrives r w out) p =
     (if (r, w) \<in> set (waiting p)
      then (case (case w of
                    AwaitsPresets k \<Rightarrow> applyPreset_finish k out (ed p)
                  | AwaitsEdit \<Rightarrow> saveEdits_finish has_onSave out (ed p)) of
              (st', fx) \<Rightarrow> Some (\<lparr>ed = st', waiting = remove1 (r, w) (waiting p)\<rparr>, fx))
      else None)"

definition editor_fire :: "jsval \<Rightarrow> bool \<Rightarrow> editor_event \<Rightarrow> editor_panel \<Rightarrow> editor_panel option" where
  "editor_fire videoPath has_onSave ev p = map_option fst (editor_step videoPath has_onSave ev p)"

fun editor_run :: "jsval \<Rightarrow> bool \<Rightarrow> editor_event list \<Rightarrow> editor_panel \<Rightarrow> editor_panel option" where
  "editor_run videoPath has_onSave [] p = Some p"
| "editor_run videoPath has_onSave (ev # evs) p =
     (case editor_fire videoPath has_onSave ev p of
        None \<Rightarrow> None
      | Some p' \<Rightarrow> editor_run videoPath has_onSave evs p')"

definition editor_mounted :: editor_panel where
  "editor_mounted = \<lparr>ed = editor_init, waiting = []\<rparr>"

text \<open>The outstanding edit requests, which \<open>isEditing\<close> guards.\<close>

definition edits_in_flight :: "editor_panel \<Rightarrow> nat" where
  "edits_in_flight p = length (filter (\<lambda>rw. snd rw = AwaitsEdit) (waiting p))"

text \<open>
  The configuration that the reply to \<open>applyPreset(k)\<close> leaves in an editor that has just
  been mounted: the \<open>config\<close> of the preset when one is applied, \<open>{}\<close> when none is.
\<close>

definition applied_config :: "string \<Rightarrow> outcome \<Rightarrow> jsval" where
  "applied_config k out = editConfig (fst (applyPreset_finish k out editor_init))"

text \<open>
  An event that does not bring in more than one effect: every event but the reply to a
  preset request whose preset lists more.
\<close>

fun tame :: "editor_event \<Rightarrow> bool" where
  "tame (EditorArrives r (AwaitsPresets k) out) = few_effects (applied_config k out)"
| "tame ev = True"

section \<open>The generator as the user, the timer and the network drive it\<close>

text \<open>
  \<^verbatim>\<open>
  useEffect(() => { fetchStyles(); }, []);

  const fetchStyles = async () => {
    try {
      const response = await fetch('/api/styles/list');
      const data = await response.json();
      setStyles(data.styles || {});
    } catch (error) {
      console.error('Error fetching styles:', error);
    }
  };
  \<close>
\<close>

definition styles_request :: request where
  "styles_request = Request ''/api/styles/list'' ''GET'' None"

definition fetchStyles_start :: "generator \<Rightarrow> generator started" where
  "fetchStyles_start st = Awaiting st [Fetch styles_request]"

definition fetchStyles_finish :: "outcome \<Rightarrow> generator \<Rightarrow> generator \<times> effect list" where
  "fetchStyles_finish out st =
     (case and_then (json_body out) (\<lambda>data. get_prop data ''styles'') of
        Inl e \<Rightarrow> (st, [ConsoleError ''Error fetching styles:'' e])
      | Inr s \<Rightarrow> (st\<lparr>styles := (if truthy s then s else Obj fmempty)\<rparr>, []))"

text \<open>
  \<^verbatim>\<open>
  <Textarea ... onChange={(e) => setScript(e.target.value)} />
  <Select value={selectedStyle} onValueChange={setSelectedStyle}>
  <Slider value={duration} onValueChange={setDuration} ... />
  <Select value={aspectRatio} onValueChange={setAspectRatio}>
  <Button onClick={generateVideo} disabled={isGenerating || !script.trim()} ...>
  \<close>
\<close>

definition generate_disabled :: "generator \<Rightarrow> bool" where
  "generate_disabled st = (isGenerating st \<or> \<not> truthy (Str (trim (script st))))"

record generator_panel =
  gen :: generator
  gen_in_flight :: "request list"

datatype generator_event =
    SetScript string
  | SetSelectedStyle string
  | SetDuration "real list"
  | SetAspectRatio string
  | ClickGenerate
  | TimerFires real
  | GeneratorArrives request outcome

definition generator_resume :: "request \<Rightarrow> outcome \<Rightarrow> generator \<Rightarrow> generator \<times> effect list" where
  "generator_resume r out st =
     (if url r = ''/api/styles/list'' then fetchStyles_finish out st
      else generateVideo_finish out st)"

text \<open>A timer that is not armed does not fire.\<close>

fun generator_fire :: "generator_event \<Rightarrow> generator_panel \<Rightarrow> generator_panel option" where
  "generator_fire (SetScript s) p = Some (p\<lparr>gen := (gen p)\<lparr>script := s\<rparr>\<rparr>)"
| "generator_fire (SetSelectedStyle s) p = Some (p\<lparr>gen := (gen p)\<lparr>selectedStyle := s\<rparr>\<rparr>)"
| "generator_fire (SetDuration d) p = Some (p\<lparr>gen := (gen p)\<lparr>duration := d\<rparr>\<rparr>)"
| "generator_fire (SetAspectRatio a) p = Some (p\<lparr>gen := (gen p)\<lparr>aspectRatio := a\<rparr>\<rparr>)"
| "generator_fire ClickGenerate p =
     (if generate_disabled (gen p) then None
      else (case generateVideo_start (gen p) of
              Returned st fx \<Rightarrow> Some \<lparr>gen = st, gen_in_flight = gen_in_flight p @ requests fx\<rparr>
            | Awaiting st fx \<Rightarrow> Some \<lparr>gen = st, gen_in_flight = gen_in_flight p @ requests fx\<rparr>))"
| "generator_fire (TimerFires r) p =
     (if progressInterval (gen p) \<and> 0 \<le> r \<and> r < 1
      then Some (p\<lparr>gen := progress_tick r (gen p)\<rparr>) else None)"
| "generator_fire (GeneratorArrives r out) p =
     (if r \<in> set (gen_in_flight p)
      then (case generator_resume r out (gen p) of
              (st', fx) \<Rightarrow> Some \<lparr>gen = st', gen_in_flight = remove1 r (gen_in_flight p) @ requests fx\<rparr>)
      else None)"

fun generator_run :: "generator_event list \<Rightarrow> generator_panel \<Rightarrow> generator_panel option" where
  "generator_run [] p = Some p"
| "generator_run (ev # evs) p =
     (case generator_fire ev p of None \<Rightarrow> None | Some p' \<Rightarrow> generator_run evs p')"

definition generator_mounted :: generator_panel where
  "generator_mounted = \<lparr>gen = generator_init, gen_in_flight = [styles_request]\<rparr>"

text \<open>The outstanding generation requests, which \<open>isGenerating\<close> guards.\<close>

definition generations_in_flight :: "generator_panel \<Rightarrow> nat" where
  "generations_in_flight p =
     length (filter (\<lambda>r. url r = ''/api/video/generate'') (gen_in_flight p))"

definition generator_flag_matches :: "generator_panel \<Rightarrow> bool" where
  "generator_flag_matches p =
     (generations_in_flight p = (if isGenerating (gen p) then 1 else 0)
      \<and> list_all (\<lambda>r. url r = ''/api/styles/list'' \<or> url r = ''/api/video/generate'') (gen_in_flight p))"

section \<open>The client (App.jsx)\<close>

text \<open>
  \<^verbatim>\<open>
  function App() {
    const [currentVideoPath, setCurrentVideoPath] = useState(null);
    const handleVideoGenerated = (videoData) => { setCurrentVideoPath(videoData.video_path); };
    const handleVideoEdited = (editedVideoPath) => { setCurrentVideoPath(editedVideoPath); };
    ...
    <VideoGenerator onVideoGenerated={handleVideoGenerated} />
    <VideoEditor videoPath={currentVideoPath} onSave={handleVideoEdited} />
    <AzureIntegration videoPath={currentVideoPath} />
  }
  \<close>
  \<open>VideoGenerator\<close> is declared as \<open>const VideoGenerator = () => {...}\<close>: it takes no
  properties and never calls \<open>onVideoGenerated\<close>. The three panels are taken as mounted
  together; what the tabs component does to a panel that is not shown is not part of the
  source.
\<close>

record client =
  currentVideoPath :: jsval
  generator_tab :: generator_panel
  editor_tab :: editor_panel
  azure_tab :: panel

datatype client_event =
    InGenerator generator_event
  | InEditor editor_event
  | InAzure azure_event

text \<open>\<open>handleVideoEdited\<close>, for every call of \<open>onSave\<close> among the effects of a handler.\<close>

fun handleVideoEdited :: "effect list \<Rightarrow> jsval \<Rightarrow> jsval" where
  "handleVideoEdited [] path = path"
| "handleVideoEdited (OnSave v # fx) path = handleVideoEdited fx v"
| "handleVideoEdited (e # fx) path = handleVideoEdited fx path"

fun client_fire :: "client_event \<Rightarrow> client \<Rightarrow> client option" where
  "client_fire (InGenerator ev) c =
     (case generator_fire ev (generator_tab c) of
        None \<Rightarrow> None
      | Some g \<Rightarrow> Some (c\<lparr>generator_tab := g\<rparr>))"
| "client_fire (InEditor ev) c =
     (case editor_step (currentVideoPath c) True ev (editor_tab c) of
        None \<Rightarrow> None
      | Some (q, fx) \<Rightarrow>
          Some (c\<lparr>editor_tab := q, currentVideoPath := handleVideoEdited fx (currentVideoPath c)\<rparr>))"
| "client_fire (InAzure ev) c =
     (case fire (currentVideoPath c) ev (azure_tab c) of
        None \<Rightarrow> None
      | Some a \<Rightarrow> Some (c\<lparr>azure_tab := a\<rparr>))"

fun client_run :: "client_event list \<Rightarrow> client \<Rightarrow> client option" where
  "client_run [] c = Some c"
| "client_run (ev # evs) c =
     (case client_fire ev c of None \<Rightarrow> None | Some c' \<Rightarrow> client_run evs c')"

definition client_mounted :: client where
  "client_mounted =
     \<lparr>currentVideoPath = Null, generator_tab = generator_mounted, editor_tab = editor_mounted,
      azure_tab = mounted\<rparr>"

text \<open>No video is selected and no edit request is outstanding.\<close>

definition no_video :: "client \<Rightarrow> bool" where
  "no_video c = (currentVideoPath c = Null \<and> (\<forall>rw \<in> set (waiting (editor_tab c)). snd rw \<noteq> AwaitsEdit))"

text \<open>Every busy flag of the client is set exactly while one request it guards is outstanding.\<close>

definition flags_guard :: "client \<Rightarrow> bool" where
  "flags_guard c =
     (generator_flag_matches (generator_tab c)
      \<and> edits_in_flight (editor_tab c) = (if isEditing (ed (editor_tab c)) then 1 else 0)
      \<and> flags_match (azure_tab c))"

section \<open>Basic facts\<close>

lemma and_then_simps [simp]:
  "and_then (Inl e) f = Inl e"
  "and_then (Inr x) f = f x"
  by (simp_all add: and_then_def)

lemma complete_simps [simp]:
  "complete (Returned st fx) k = (st, fx)"
  "complete (Awaiting st fx) k = (fst (k st), fx @ snd (k st))"
  by (simp_all add: complete_def split: prod.splits)

lemma read_prop_Obj [simp]:
  "read_prop (Obj m) k = (case fmlookup m k of Some x \<Rightarrow> x | None \<Rightarrow> Undefined)"
  by (simp add: read_prop_def split: option.splits)

lemma updateEditConfig_value:
  "\<not> nullish c \<Longrightarrow>
   updateEditConfig s k v c =
     Inr (Obj (fmupd s (Obj (fmupd k v (own_props (read_prop c s)))) (own_props c)))"
  by (simp add: updateEditConfig_def get_prop_def)

lemma updateEditConfig_Obj:
  "updateEditConfig s k v (Obj m) =
     Inr (Obj (fmupd s (Obj (fmupd k v (own_props (read_prop (Obj m) s)))) m))"
  by (simp add: updateEditConfig_value)

section \<open>The builder\<close>

text \<open>
  C3. For every edit configuration (an object \<open>Obj m\<close>), category \<open>s\<close>, key \<open>k\<close> and value
  \<open>v\<close>, \<open>set(s, k, v)\<close> returns a configuration in which every category other than \<open>s\<close>
  holds what it held, and the sub-map of \<open>s\<close> is the former sub-map of \<open>s\<close> with \<open>k\<close>
  mapped to \<open>v\<close>: \<open>k\<close> reads \<open>v\<close> and every other key of \<open>s\<close> reads what it read. The
  value is any value at all: nothing checks its range.
\<close>

theorem set_merges_into_category:
  "\<exists>m'. updateEditConfig s k v (Obj m) = Inr (Obj m')
      \<and> (\<forall>s'. s' \<noteq> s \<longrightarrow> fmlookup m' s' = fmlookup m s')
      \<and> fmlookup m' s = Some (Obj (fmupd k v (category (Obj m) s)))
      \<and> category (Obj m') s = fmupd k v (category (Obj m) s)
      \<and> fmlookup (category (Obj m') s) k = Some v
      \<and> (\<forall>k'. k' \<noteq> k \<longrightarrow> fmlookup (category (Obj m') s) k' = fmlookup (category (Obj m) s) k')"
  by (simp add: updateEditConfig_Obj category_def opt_chain_def)

theorem set_merges_into_category_witness:
  "\<exists>m'. updateEditConfig ''trim'' ''end'' (Num (- 3))
           (Obj (fmap_of_list [(''trim'', Obj (fmap_of_list [(''start'', Num 0)])),
                               (''resize'', Obj (fmap_of_list [(''width'', Num 1920)]))])) = Inr (Obj m')
      \<and> ''resize'' \<noteq> ''trim''
      \<and> fmlookup m' ''resize'' = Some (Obj (fmap_of_list [(''width'', Num 1920)]))
      \<and> ''start'' \<noteq> ''end''
      \<and> fmlookup (category (Obj m') ''trim'') ''start'' = Some (Num 0)
      \<and> fmlookup (category (Obj m') ''trim'') ''end'' = Some (Num (- 3))"
  using set_merges_into_category [of "''trim''" "''end''" "Num (- 3)"
      "fmap_of_list [(''trim'', Obj (fmap_of_list [(''start'', Num 0)])),
                     (''resize'', Obj (fmap_of_list [(''width'', Num 1920)]))]"]
  by (auto simp: category_def opt_chain_def)

text \<open>
  C4. On every edit configuration, \<open>set(s, k, v)\<close> applied to its own result returns
  that result again, and for two different categories \<open>set(s1, k1, v1)\<close> followed by
  \<open>set(s2, k2, v2)\<close> returns the same configuration as the two calls in the other
  order.
\<close>

theorem set_idempotent_and_commutes:
  "(\<exists>c'. updateEditConfig s k v (Obj m) = Inr c'
        \<and> updateEditConfig s k v c' = Inr c')
   \<and> (s1 \<noteq> s2 \<longrightarrow>
        (\<exists>c'. and_then (updateEditConfig s1 k1 v1 (Obj m)) (updateEditConfig s2 k2 v2) = Inr c'
            \<and> and_then (updateEditConfig s2 k2 v2 (Obj m)) (updateEditConfig s1 k1 v1) = Inr c'))"
  by (auto simp add: updateEditConfig_Obj fmupd_reorder_neq)

theorem set_idempotent_and_commutes_witness:
  "''trim'' \<noteq> ''resize''
   \<and> (\<exists>c'. and_then (updateEditConfig ''trim'' ''start'' (Num 0) reset)
               (updateEditConfig ''resize'' ''width'' (Num 1920)) = Inr c'
         \<and> and_then (updateEditConfig ''resize'' ''width'' (Num 1920) reset)
               (updateEditConfig ''trim'' ''start'' (Num 0)) = Inr c')"
  using set_idempotent_and_commutes [of "''trim''" "''start''" "Num 0" fmempty
      "''trim''" "''resize''" "''start''" "Num 0" "''width''" "Num 1920"]
  by (simp add: reset_def)

section \<open>Submitting the edits\<close>

lemma trim_cfg:
  "fmupd ''end'' (Num 10) (fmupd ''start'' (Num 0) fmempty) =
   fmap_of_list [(''start'', Num 0), (''end'', Num 10)]"
  by (rule fmap_ext) auto

lemma resize_cfg:
  "fmupd ''height'' (Num 1080) (fmupd ''width'' (Num 1920) fmempty) =
   fmap_of_list [(''width'', Num 1920), (''height'', Num 1080)]"
  by (rule fmap_ext) auto

lemma example_config:
  "and_then (and_then (and_then (updateEditConfig ''trim'' ''start'' (Num 0) reset)
       (updateEditConfig ''trim'' ''end'' (Num 10)))
       (updateEditConfig ''resize'' ''width'' (Num 1920)))
       (updateEditConfig ''resize'' ''height'' (Num 1080))
   = Inr (Obj (fmap_of_list
        [(''trim'', Obj (fmap_of_list [(''start'', Num 0), (''end'', Num 10)])),
         (''resize'', Obj (fmap_of_list [(''width'', Num 1920), (''height'', Num 1080)]))]))"
proof -
  have "fmupd ''resize'' (Obj (fmap_of_list [(''width'', Num 1920), (''height'', Num 1080)]))
          (fmupd ''trim'' (Obj (fmap_of_list [(''start'', Num 0), (''end'', Num 10)])) fmempty)
        = fmap_of_list
        [(''trim'', Obj (fmap_of_list [(''start'', Num 0), (''end'', Num 10)])),
         (''resize'', Obj (fmap_of_list [(''width'', Num 1920), (''height'', Num 1080)]))]"
    by (rule fmap_ext) auto
  then show ?thesis
    by (simp add: reset_def updateEditConfig_Obj trim_cfg resize_cfg)
qed

lemma saveEdits_finish_requests:
  "requests (snd (saveEdits_finish has_onSave out st)) = []"
  by (auto simp: saveEdits_finish_def and_then_def throw_error_def json_body_def
        split: sum.splits outcome.splits if_splits)

text \<open>
  C1. Starting from the empty configuration, the calls \<open>set('trim','start',0)\<close>,
  \<open>set('trim','end',10)\<close>, \<open>set('resize','width',1920)\<close>, \<open>set('resize','height',1080)\<close>
  build a configuration with which \<open>submit()\<close>, for a selected video (a path that is not
  empty), sends exactly one request, a POST to \<open>/api/editor/edit\<close>, whose body is the
  JSON object \<open>{"video_path": p, "edit_config": {"trim": {"start": 0, "end": 10},
  "resize": {"width": 1920, "height": 1080}}}\<close>, whatever the reply is.
\<close>

theorem example_post_body:
  assumes "truthy videoPath"
  shows "\<exists>cfg. and_then (and_then (and_then (updateEditConfig ''trim'' ''start'' (Num 0) reset)
                 (updateEditConfig ''trim'' ''end'' (Num 10)))
                 (updateEditConfig ''resize'' ''width'' (Num 1920)))
                 (updateEditConfig ''resize'' ''height'' (Num 1080)) = Inr cfg
          \<and> requests (snd (saveEdits videoPath has_onSave out (st\<lparr>editConfig := cfg\<rparr>))) =
              [Request ''/api/editor/edit'' ''POST''
                 (Some (Obj (fmap_of_list
                    [(''video_path'', videoPath),
                     (''edit_config'', Obj (fmap_of_list
                        [(''trim'', Obj (fmap_of_list [(''start'', Num 0), (''end'', Num 10)])),
                         (''resize'', Obj (fmap_of_list [(''width'', Num 1920), (''height'', Num 1080)]))]))])))]"
  using assms
  by (simp add: example_config saveEdits_def saveEdits_start_def saveEdits_finish_requests edit_body_def)

theorem example_post_body_witness:
  "truthy (Str ''/videos/clip.mp4'')
   \<and> (\<exists>cfg. and_then (and_then (and_then (updateEditConfig ''trim'' ''start'' (Num 0) reset)
                 (updateEditConfig ''trim'' ''end'' (Num 10)))
                 (updateEditConfig ''resize'' ''width'' (Num 1920)))
                 (updateEditConfig ''resize'' ''height'' (Num 1080)) = Inr cfg
          \<and> requests (snd (saveEdits (Str ''/videos/clip.mp4'') True (Resolved True (Inr Null))
                              (editor_init\<lparr>editConfig := cfg\<rparr>))) =
              [Request ''/api/editor/edit'' ''POST''
                 (Some (Obj (fmap_of_list
                    [(''video_path'', Str ''/videos/clip.mp4''),
                     (''edit_config'', Obj (fmap_of_list
                        [(''trim'', Obj (fmap_of_list [(''start'', Num 0), (''end'', Num 10)])),
                         (''resize'', Obj (fmap_of_list [(''width'', Num 1920), (''height'', Num 1080)]))]))])))])"
proof -
  have h: "truthy (Str ''/videos/clip.mp4'')" by simp
  show ?thesis
    using h example_post_body [OF h, of True "Resolved True (Inr Null)" editor_init] by simp
qed

section \<open>Presets\<close>

text \<open>
  C2. Whatever the edit configuration was, when the reply to the preset request holds a
  preset under the requested key, \<open>apply(presetKey)\<close> makes the preset's \<open>config\<close> the
  edit configuration: the new configuration is that value itself, and nothing of the
  former configuration is merged into it. (The preset is a JSON object, as the
  interface documents it: \<open>{ name, description, config }\<close>.)
\<close>

theorem preset_replaces_config:
  assumes "json_body out = Inr (Obj d)"
    and "fmlookup d ''presets'' = Some (Obj ps)"
    and "fmlookup ps presetKey = Some (Obj preset)"
  shows "applyPreset presetKey out st =
           (st\<lparr>editConfig := read_prop (Obj preset) ''config'', selectedPreset := presetKey\<rparr>,
            [Fetch (Request ''/api/editor/presets'' ''GET'' None)])
         \<and> editConfig (fst (applyPreset presetKey out st)) = read_prop (Obj preset) ''config''
         \<and> (fmlookup preset ''config'' = Some cfg \<longrightarrow>
               editConfig (fst (applyPreset presetKey out st)) = cfg)"
  using assms
  by (simp add: applyPreset_def applyPreset_start_def applyPreset_finish_def get_prop_def)

theorem preset_replaces_config_witness:
  "json_body (Resolved True (Inr (Obj (fmap_of_list
       [(''presets'', Obj (fmap_of_list
           [(''cinematic'', Obj (fmap_of_list
               [(''name'', Str ''Cinematic''),
                (''config'', Obj (fmap_of_list
                    [(''fade_in'', Obj (fmap_of_list [(''duration'', Num 1)]))]))]))]))]))))
     = Inr (Obj (fmap_of_list
       [(''presets'', Obj (fmap_of_list
           [(''cinematic'', Obj (fmap_of_list
               [(''name'', Str ''Cinematic''),
                (''config'', Obj (fmap_of_list
                    [(''fade_in'', Obj (fmap_of_list [(''duration'', Num 1)]))]))]))]))]))
   \<and> editConfig (fst (applyPreset ''cinematic''
        (Resolved True (Inr (Obj (fmap_of_list
       [(''presets'', Obj (fmap_of_list
           [(''cinematic'', Obj (fmap_of_list
               [(''name'', Str ''Cinematic''),
                (''config'', Obj (fmap_of_list
                    [(''fade_in'', Obj (fmap_of_list [(''duration'', Num 1)]))]))]))]))]))))
        (editor_init\<lparr>editConfig := Obj (fmap_of_list
            [(''trim'', Obj (fmap_of_list [(''start'', Num 2)]))])\<rparr>)))
     = Obj (fmap_of_list [(''fade_in'', Obj (fmap_of_list [(''duration'', Num 1)]))])"
proof -
  let ?cfg = "Obj (fmap_of_list [(''fade_in'', Obj (fmap_of_list [(''duration'', Num 1)]))])"
  let ?preset = "fmap_of_list [(''name'', Str ''Cinematic''), (''config'', ?cfg)]"
  let ?ps = "fmap_of_list [(''cinematic'', Obj ?preset)]"
  let ?d = "fmap_of_list [(''presets'', Obj ?ps)]"
  let ?out = "Resolved True (Inr (Obj ?d))"
  have 1: "json_body ?out = Inr (Obj ?d)" by (simp add: json_body_def)
  have 2: "fmlookup ?d ''presets'' = Some (Obj ?ps)" by simp
  have 3: "fmlookup ?ps ''cinematic'' = Some (Obj ?preset)" by simp
  have 4: "fmlookup ?preset ''config'' = Some ?cfg" by simp
  show ?thesis
    using 1 4 preset_replaces_config [OF 1 2 3, where cfg = ?cfg] by simp
qed

section \<open>Failure and success of a submission\<close>

lemma saveEdits_sent:
  "truthy videoPath \<Longrightarrow>
   saveEdits videoPath h out st =
     (fst (saveEdits_finish h out (st\<lparr>isEditing := True\<rparr>)),
      Fetch (Request ''/api/editor/edit'' ''POST'' (Some (edit_body videoPath (editConfig st))))
        # snd (saveEdits_finish h out (st\<lparr>isEditing := True\<rparr>)))"
  by (simp add: saveEdits_def saveEdits_start_def)

lemma saveEdits_finish_error:
  "and_then (json_body out)
             (\<lambda>data.
                if is_ok out
                then (if h
                      then and_then (get_prop data ''edited_path'')
                             (\<lambda>p. Inr [OnSave p, Alert ''Video edited successfully!''])
                      else Inr [Alert ''Video edited successfully!''])
                else throw_error data ''Failed to edit video'') = Inl e \<Longrightarrow>
   saveEdits_finish h out st =
     (st\<lparr>isEditing := False\<rparr>,
      [ConsoleError ''Error editing video:'' e, Alert (''Error editing video: '' @ message e)])"
  by (simp add: saveEdits_finish_def)

lemma throw_error_Inl: "\<exists>e. throw_error data fb = Inl e"
  by (simp add: throw_error_def get_prop_def)

text \<open>
  C6. With a video selected, when the edit request fails (\<open>fetch\<close> throws, or the
  response is not ok) \<open>submit()\<close> shows one alert, \<open>Error editing video: \<close> followed by
  the message of the error (the thrown error's, or the \<open>error\<close> string of the reply),
  leaves the edit configuration as it was and does not call the callback; the only
  change of state is that the busy flag is off again. When the response is ok and
  carries a JSON object, the callback is called with its \<open>edited_path\<close>.
\<close>

theorem submit_failure_keeps_state:
  assumes "truthy videoPath"
  shows "((out = Rejected e \<or> out = Resolved False body) \<longrightarrow>
           (\<exists>err. saveEdits videoPath has_onSave out st =
               (st\<lparr>isEditing := False\<rparr>,
                [Fetch (Request ''/api/editor/edit'' ''POST'' (Some (edit_body videoPath (editConfig st)))),
                 ConsoleError ''Error editing video:'' err,
                 Alert (''Error editing video: '' @ message err)])
             \<and> (out = Rejected e \<longrightarrow> err = e)
             \<and> (\<forall>d m. out = Resolved False (Inr (Obj d)) \<and> fmlookup d ''error'' = Some (Str m) \<and> m \<noteq> []
                    \<longrightarrow> message err = m))
           \<and> editConfig (fst (saveEdits videoPath has_onSave out st)) = editConfig st
           \<and> on_save_calls (snd (saveEdits videoPath has_onSave out st)) = [])
       \<and> (out = Resolved True (Inr (Obj d)) \<longrightarrow>
            saveEdits videoPath True out st =
              (st\<lparr>isEditing := False\<rparr>,
               [Fetch (Request ''/api/editor/edit'' ''POST'' (Some (edit_body videoPath (editConfig st)))),
                OnSave (read_prop (Obj d) ''edited_path''),
                Alert ''Video edited successfully!'']))"
proof (intro conjI impI)
  assume f: "out = Rejected e \<or> out = Resolved False body"
  let ?r = "and_then (json_body out)
             (\<lambda>data.
                if is_ok out
                then (if has_onSave
                      then and_then (get_prop data ''edited_path'')
                             (\<lambda>p. Inr [OnSave p, Alert ''Video edited successfully!''])
                      else Inr [Alert ''Video edited successfully!''])
                else throw_error data ''Failed to edit video'')"
  from f obtain err where err: "?r = Inl err"
  proof
    assume "out = Rejected e"
    then have "?r = Inl e" by (simp add: json_body_def)
    then show ?thesis using that by blast
  next
    assume o: "out = Resolved False body"
    show ?thesis
    proof (cases body)
      case (Inl x)
      with o have "?r = Inl x" by (simp add: json_body_def)
      then show ?thesis using that by blast
    next
      case (Inr data)
      obtain x where "throw_error data ''Failed to edit video'' = (Inl x :: js_error + effect list)"
        using throw_error_Inl by blast
      with o Inr have "?r = Inl x" by (simp add: json_body_def is_ok_def)
      then show ?thesis using that by blast
    qed
  qed
  have run: "saveEdits videoPath has_onSave out st =
      (st\<lparr>isEditing := False\<rparr>,
       [Fetch (Request ''/api/editor/edit'' ''POST'' (Some (edit_body videoPath (editConfig st)))),
        ConsoleError ''Error editing video:'' err,
        Alert (''Error editing video: '' @ message err)])"
    using assms saveEdits_finish_error [OF err] by (simp add: saveEdits_sent)
  have rej: "out = Rejected e \<longrightarrow> err = e"
    using err by (auto simp: json_body_def)
  have msg: "\<forall>d m. out = Resolved False (Inr (Obj d)) \<and> fmlookup d ''error'' = Some (Str m) \<and> m \<noteq> []
                    \<longrightarrow> message err = m"
    using err by (auto simp: json_body_def is_ok_def throw_error_def get_prop_def message_def)
  show "\<exists>err. saveEdits videoPath has_onSave out st =
               (st\<lparr>isEditing := False\<rparr>,
                [Fetch (Request ''/api/editor/edit'' ''POST'' (Some (edit_body videoPath (editConfig st)))),
                 ConsoleError ''Error editing video:'' err,
                 Alert (''Error editing video: '' @ message err)])
             \<and> (out = Rejected e \<longrightarrow> err = e)
             \<and> (\<forall>d m. out = Resolved False (Inr (Obj d)) \<and> fmlookup d ''error'' = Some (Str m) \<and> m \<noteq> []
                    \<longrightarrow> message err = m)"
    using run rej msg by blast
  show "editConfig (fst (saveEdits videoPath has_onSave out st)) = editConfig st"
    using run by simp
  show "on_save_calls (snd (saveEdits videoPath has_onSave out st)) = []"
    using run by simp
next
  assume "out = Resolved True (Inr (Obj d))"
  then show "saveEdits videoPath True out st =
              (st\<lparr>isEditing := False\<rparr>,
               [Fetch (Request ''/api/editor/edit'' ''POST'' (Some (edit_body videoPath (editConfig st)))),
                OnSave (read_prop (Obj d) ''edited_path''),
                Alert ''Video edited successfully!''])"
    using assms
    by (simp add: saveEdits_sent saveEdits_finish_def json_body_def is_ok_def get_prop_def)
qed

theorem submit_failure_keeps_state_witness:
  "truthy (Str ''/videos/clip.mp4'')
   \<and> alerts (snd (saveEdits (Str ''/videos/clip.mp4'') True
         (Resolved False (Inr (Obj (fmap_of_list [(''error'', Str ''Unsupported codec'')]))))
         (editor_init\<lparr>editConfig := Obj (fmap_of_list [(''volume'', Obj (fmap_of_list [(''factor'', Num 2)]))])\<rparr>)))
       = [''Error editing video: Unsupported codec'']
   \<and> editConfig (fst (saveEdits (Str ''/videos/clip.mp4'') True
         (Resolved False (Inr (Obj (fmap_of_list [(''error'', Str ''Unsupported codec'')]))))
         (editor_init\<lparr>editConfig := Obj (fmap_of_list [(''volume'', Obj (fmap_of_list [(''factor'', Num 2)]))])\<rparr>)))
       = Obj (fmap_of_list [(''volume'', Obj (fmap_of_list [(''factor'', Num 2)]))])
   \<and> on_save_calls (snd (saveEdits (Str ''/videos/clip.mp4'') True
         (Resolved False (Inr (Obj (fmap_of_list [(''error'', Str ''Unsupported codec'')]))))
         (editor_init\<lparr>editConfig := Obj (fmap_of_list [(''volume'', Obj (fmap_of_list [(''factor'', Num 2)]))])\<rparr>)))
       = []
   \<and> on_save_calls (snd (saveEdits (Str ''/videos/clip.mp4'') True
         (Resolved True (Inr (Obj (fmap_of_list [(''edited_path'', Str ''/videos/clip_edited.mp4'')]))))
         editor_init))
       = [Str ''/videos/clip_edited.mp4'']"
proof -
  have h: "truthy (Str ''/videos/clip.mp4'')" by simp
  let ?bad = "Resolved False (Inr (Obj (fmap_of_list [(''error'', Str ''Unsupported codec'')])))"
  let ?good = "Resolved True (Inr (Obj (fmap_of_list [(''edited_path'', Str ''/videos/clip_edited.mp4'')])))"
  let ?st = "editor_init\<lparr>editConfig := Obj (fmap_of_list [(''volume'', Obj (fmap_of_list [(''factor'', Num 2)]))])\<rparr>"
  from submit_failure_keeps_state [OF h, where out = ?bad and has_onSave = True and st = ?st
      and body = "Inr (Obj (fmap_of_list [(''error'', Str ''Unsupported codec'')]))"]
  have 1: "alerts (snd (saveEdits (Str ''/videos/clip.mp4'') True ?bad ?st)) = [''Error editing video: Unsupported codec'']"
    and 2: "editConfig (fst (saveEdits (Str ''/videos/clip.mp4'') True ?bad ?st)) = editConfig ?st"
    and 3: "on_save_calls (snd (saveEdits (Str ''/videos/clip.mp4'') True ?bad ?st)) = []"
    by auto
  from submit_failure_keeps_state [OF h, where out = ?good and st = editor_init
      and d = "fmap_of_list [(''edited_path'', Str ''/videos/clip_edited.mp4'')]"]
  have 4: "on_save_calls (snd (saveEdits (Str ''/videos/clip.mp4'') True ?good editor_init)) = [Str ''/videos/clip_edited.mp4'']"
    by simp
  from h 1 2 3 4 show ?thesis by simp
qed

section \<open>The effect switches\<close>

lemma effects_list_Obj:
  "effects_list (Obj m) = (case fmlookup m ''effects'' of None \<Rightarrow> Undefined | Some e \<Rightarrow> opt_chain e ''list'')"
  by (simp add: effects_list_def opt_chain_def split: option.splits)

lemma effects_list_set_other:
  "s \<noteq> ''effects'' \<Longrightarrow> effects_list (Obj (fmupd s x m)) = effects_list (Obj m)"
  by (simp add: effects_list_Obj)

lemma effects_list_set_list:
  "effects_list (Obj (fmupd ''effects'' (Obj (fmupd ''list'' v sub)) m)) = v"
  by (simp add: effects_list_Obj opt_chain_def)

lemma control_section_not_effects: "control_section c \<noteq> ''effects''"
  by (cases c) simp_all

lemma switch_on:
  "onCheckedChange sw True (Obj m) =
     Inr (Obj (fmupd ''effects''
            (Obj (fmupd ''list'' (Arr [Str (effect_id sw)]) (own_props (read_prop (Obj m) ''effects'')))) m))"
  by (simp add: onCheckedChange_def updateEditConfig_Obj)

lemma handle_keeps_one_effect:
  "one_effect (Obj m) \<Longrightarrow> \<exists>m'. handle ev (Obj m) = Inr (Obj m') \<and> one_effect (Obj m')"
proof (cases ev)
  case (Changed c v)
  assume "one_effect (Obj m)"
  then show ?thesis
    using Changed control_section_not_effects [of c]
    by (simp add: updateEditConfig_Obj one_effect_def effects_list_set_other)
next
  case (Switched sw checked)
  assume "one_effect (Obj m)"
  then show ?thesis
  proof (cases checked)
    case True
    then show ?thesis
      using Switched by (auto simp add: switch_on one_effect_def effects_list_set_list)
  next
    case False
    then show ?thesis
      using Switched \<open>one_effect (Obj m)\<close> by (simp add: onCheckedChange_def)
  qed
next
  case ResetClicked
  then show ?thesis
    by (simp add: reset_def one_effect_def effects_list_Obj)
qed

lemma handle_all_keeps_one_effect:
  "one_effect (Obj m) \<Longrightarrow> \<exists>m'. handle_all evs (Obj m) = Inr (Obj m') \<and> one_effect (Obj m')"
proof (induction evs arbitrary: m)
  case Nil
  then show ?case by simp
next
  case (Cons ev evs)
  from handle_keeps_one_effect [OF Cons.prems, of ev]
  obtain m1 where 1: "handle ev (Obj m) = Inr (Obj m1)" and 2: "one_effect (Obj m1)" by blast
  from Cons.IH [OF 2] show ?case using 1 by simp
qed

lemma effects_list_spread_other:
  assumes "\<not> nullish c" "s \<noteq> ''effects''"
  shows "effects_list (Obj (fmupd s x (own_props c))) = effects_list c"
  using assms
  by (cases c) (auto simp: effects_list_def opt_chain_def read_prop_def split: option.splits)

lemma handle_keeps_few_effects:
  assumes "few_effects c" "handle ev c = Inr c'"
  shows "few_effects c'"
proof (cases ev)
  case (Changed ctl v)
  with assms(2) have nn: "\<not> nullish c"
    by (auto simp: updateEditConfig_def get_prop_def split: if_splits)
  with assms Changed control_section_not_effects [of ctl] show ?thesis
    by (auto simp: updateEditConfig_value few_effects_def effects_list_spread_other)
next
  case (Switched sw checked)
  show ?thesis
  proof (cases checked)
    case True
    with assms(2) Switched have nn: "\<not> nullish c"
      by (auto simp: onCheckedChange_def updateEditConfig_def get_prop_def split: if_splits)
    with assms(2) Switched True show ?thesis
      by (auto simp: onCheckedChange_def updateEditConfig_value few_effects_def effects_list_set_list)
  next
    case False
    with assms Switched show ?thesis by (simp add: onCheckedChange_def)
  qed
next
  case ResetClicked
  with assms(2) show ?thesis
    by (auto simp: reset_def few_effects_def effects_list_Obj)
qed

lemma applyPreset_finish_config:
  "editConfig (fst (applyPreset_finish k out st)) = editConfig st
   \<or> editConfig (fst (applyPreset_finish k out st)) = applied_config k out"
  by (auto simp: applyPreset_finish_def applied_config_def split: sum.splits)

lemma saveEdits_finish_config:
  "editConfig (fst (saveEdits_finish h out st)) = editConfig st"
  by (auto simp: saveEdits_finish_def split: sum.splits)

lemma editor_step_keeps_few_effects:
  assumes inv: "few_effects (editConfig (ed p))" and t: "tame ev"
    and st: "editor_step vp h ev p = Some (q, fx)"
  shows "few_effects (editConfig (ed q))"
proof (cases ev)
  case (ClickPreset k)
  with inv st show ?thesis by (auto simp: applyPreset_start_def launch_def)
next
  case ClickApplyEdits
  with inv st show ?thesis by (auto simp: saveEdits_start_def launch_def split: if_splits)
next
  case (Uses u)
  with st obtain c where "handle u (editConfig (ed p)) = Inr c" "editConfig (ed q) = c"
    by (auto simp: edit_with_def and_then_def split: sum.splits)
  with inv show ?thesis by (auto dest: handle_keeps_few_effects)
next
  case (EditorArrives r w out)
  with st have mem: "(r, w) \<in> set (waiting p)" by (auto split: if_splits)
  show ?thesis
  proof (cases w)
    case (AwaitsPresets k)
    with st EditorArrives mem
    have "editConfig (ed q) = editConfig (fst (applyPreset_finish k out (ed p)))"
      by (auto split: prod.splits)
    with applyPreset_finish_config [of k out "ed p"] inv t EditorArrives AwaitsPresets
    show ?thesis by auto
  next
    case AwaitsEdit
    with st EditorArrives mem
    have "editConfig (ed q) = editConfig (fst (saveEdits_finish h out (ed p)))"
      by (auto split: prod.splits)
    with inv show ?thesis by (simp add: saveEdits_finish_config)
  qed
qed

lemma editor_run_keeps_few_effects:
  "few_effects (editConfig (ed p)) \<Longrightarrow> list_all tame evs \<Longrightarrow>
   editor_run vp h evs p = Some q \<Longrightarrow> few_effects (editConfig (ed q))"
proof (induction evs arbitrary: p)
  case Nil
  then show ?case by simp
next
  case (Cons ev evs)
  from Cons.prems(3) obtain p1 fx where 1: "editor_step vp h ev p = Some (p1, fx)"
    and 2: "editor_run vp h evs p1 = Some q"
    by (auto simp: editor_fire_def split: option.splits)
  from Cons.prems(2) have t: "tame ev" and ts: "list_all tame evs" by simp_all
  from Cons.IH [OF editor_step_keeps_few_effects [OF Cons.prems(1) t 1] ts 2] show ?case .
qed

text \<open>
  C10, as the code has it. A switch of the Effects tab that is turned off leaves the
  configuration as it is. Turned on, it stores the one-element list of its own effect
  under \<open>effects.list\<close>; a second switch turned on stores its own one-element list in
  place of the first. So through every sequence of control events of the editor, from
  the empty configuration, \<open>effects.list\<close> is absent or holds exactly one effect
  identifier; and in every execution of the editor in which no preset reply brings in a
  longer list, \<open>effects.list\<close> is absent or holds at most one identifier.
\<close>

theorem effect_switches_hold_one_effect:
  "onCheckedChange sw False c = Inr c
   \<and> (\<exists>c'. onCheckedChange sw True (Obj m) = Inr c' \<and> effects_list c' = Arr [Str (effect_id sw)])
   \<and> (\<exists>c' c''. onCheckedChange sw1 True (Obj m) = Inr c' \<and> onCheckedChange sw2 True c' = Inr c''
          \<and> effects_list c'' = Arr [Str (effect_id sw2)])
   \<and> (\<exists>c'. handle_all evs reset = Inr c'
          \<and> (effects_list c' = Undefined \<or> (\<exists>sw'. effects_list c' = Arr [Str (effect_id sw')])))
   \<and> (editor_run videoPath has_onSave eevs editor_mounted = Some q \<and> list_all tame eevs \<longrightarrow>
        few_effects (editConfig (ed q)))"
proof -
  have "one_effect reset" by (simp add: reset_def one_effect_def effects_list_Obj)
  then have "\<exists>m'. handle_all evs reset = Inr (Obj m') \<and> one_effect (Obj m')"
    unfolding reset_def by (rule handle_all_keeps_one_effect)
  then have 4: "\<exists>c'. handle_all evs reset = Inr c'
          \<and> (effects_list c' = Undefined \<or> (\<exists>sw'. effects_list c' = Arr [Str (effect_id sw')]))"
    unfolding one_effect_def by blast
  have 1: "onCheckedChange sw False c = Inr c" by (simp add: onCheckedChange_def)
  have 2: "\<exists>c'. onCheckedChange sw True (Obj m) = Inr c' \<and> effects_list c' = Arr [Str (effect_id sw)]"
    by (simp add: switch_on effects_list_set_list)
  have 3: "\<exists>c' c''. onCheckedChange sw1 True (Obj m) = Inr c' \<and> onCheckedChange sw2 True c' = Inr c''
          \<and> effects_list c'' = Arr [Str (effect_id sw2)]"
    by (simp add: switch_on effects_list_set_list)
  have "few_effects (editConfig (ed editor_mounted))"
    by (simp add: editor_mounted_def editor_init_def few_effects_def effects_list_Obj)
  then have 5: "editor_run videoPath has_onSave eevs editor_mounted = Some q \<and> list_all tame eevs \<longrightarrow>
        few_effects (editConfig (ed q))"
    by (blast intro: editor_run_keeps_few_effects)
  from 1 2 3 4 5 show ?thesis by blast
qed

theorem effect_switches_hold_one_effect_witness:
  "list_all tame
     [ClickPreset ''cinematic'',
      EditorArrives (Request ''/api/editor/presets'' ''GET'' None) (AwaitsPresets ''cinematic'')
        (Resolved True (Inr (Obj (fmap_of_list
           [(''presets'', Obj (fmap_of_list
               [(''cinematic'', Obj (fmap_of_list
                   [(''config'', Obj (fmap_of_list
                       [(''effects'', Obj (fmap_of_list
                           [(''list'', Arr [Str ''fade_in''])]))]))]))]))])))),
      Uses (Changed VolumeFactor (Num 2)),
      Uses (Switched SlowMotion False)]
   \<and> (\<exists>q. editor_run Null True
         [ClickPreset ''cinematic'',
          EditorArrives (Request ''/api/editor/presets'' ''GET'' None) (AwaitsPresets ''cinematic'')
            (Resolved True (Inr (Obj (fmap_of_list
               [(''presets'', Obj (fmap_of_list
                   [(''cinematic'', Obj (fmap_of_list
                       [(''config'', Obj (fmap_of_list
                           [(''effects'', Obj (fmap_of_list
                               [(''list'', Arr [Str ''fade_in''])]))]))]))]))])))),
          Uses (Changed VolumeFactor (Num 2)),
          Uses (Switched SlowMotion False)] editor_mounted = Some q
        \<and> effects_list (editConfig (ed q)) = Arr [Str ''fade_in'']
        \<and> few_effects (editConfig (ed q)))"
proof -
  let ?cfg = "Obj (fmap_of_list [(''effects'', Obj (fmap_of_list [(''list'', Arr [Str ''fade_in''])]))])"
  let ?out = "Resolved True (Inr (Obj (fmap_of_list
           [(''presets'', Obj (fmap_of_list
               [(''cinematic'', Obj (fmap_of_list [(''config'', ?cfg)]))]))])))"
  let ?evs = "[ClickPreset ''cinematic'',
      EditorArrives (Request ''/api/editor/presets'' ''GET'' None) (AwaitsPresets ''cinematic'') ?out,
      Uses (Changed VolumeFactor (Num 2)),
      Uses (Switched SlowMotion False)]"
  let ?q = "\<lparr>ed = \<lparr>editConfig = Obj (fmupd ''volume'' (Obj (fmupd ''factor'' (Num 2) fmempty))
                                      (fmap_of_list [(''effects'', Obj (fmap_of_list [(''list'', Arr [Str ''fade_in''])]))])),
                    selectedPreset = ''cinematic'', isEditing = False\<rparr>,
             waiting = []\<rparr>"
  have t: "list_all tame ?evs"
    by (simp add: few_effects_def applied_config_def applyPreset_finish_def json_body_def
          get_prop_def effects_list_Obj opt_chain_def)
  have r: "editor_run Null True ?evs editor_mounted = Some ?q"
    by (simp add: editor_fire_def editor_mounted_def editor_init_def applyPreset_start_def launch_def
          applyPreset_finish_def json_body_def get_prop_def edit_with_def updateEditConfig_Obj
          onCheckedChange_def)
  from effect_switches_hold_one_effect [where eevs = ?evs and q = ?q and videoPath = Null
      and has_onSave = True] r t
  have f: "few_effects (editConfig (ed ?q))" by blast
  have e: "effects_list (editConfig (ed ?q)) = Arr [Str ''fade_in'']"
    by (simp add: effects_list_Obj opt_chain_def)
  from t r e f show ?thesis by blast
qed

text \<open>
  C10, as it is stated, fails: \<open>effects.list\<close> does not always hold at most one
  identifier. \<open>applyPreset\<close> stores the \<open>config\<close> of the preset as it comes, and a switch
  that is turned off keeps it: in the client, after the reply to a preset request whose
  preset lists two effects and a switch turned off, \<open>effects.list\<close> holds both.
\<close>

theorem preset_brings_two_effects:
  "client_run
     [InEditor (ClickPreset ''cinematic''),
      InEditor (EditorArrives (Request ''/api/editor/presets'' ''GET'' None) (AwaitsPresets ''cinematic'')
        (Resolved True (Inr (Obj (fmap_of_list
           [(''presets'', Obj (fmap_of_list
               [(''cinematic'', Obj (fmap_of_list
                   [(''config'', Obj (fmap_of_list
                       [(''effects'', Obj (fmap_of_list
                           [(''list'', Arr [Str ''speed_up'', Str ''black_and_white''])]))]))]))]))]))))),
      InEditor (Uses (Switched SpeedUp False))] client_mounted
   = Some (client_mounted
       \<lparr>editor_tab :=
          \<lparr>ed = \<lparr>editConfig = Obj (fmap_of_list
                      [(''effects'', Obj (fmap_of_list
                          [(''list'', Arr [Str ''speed_up'', Str ''black_and_white''])]))]),
                  selectedPreset = ''cinematic'', isEditing = False\<rparr>,
           waiting = []\<rparr>\<rparr>)
   \<and> effects_list (Obj (fmap_of_list
          [(''effects'', Obj (fmap_of_list
              [(''list'', Arr [Str ''speed_up'', Str ''black_and_white''])]))]))
       = Arr [Str ''speed_up'', Str ''black_and_white'']"
  by (simp add: client_mounted_def editor_mounted_def editor_init_def applyPreset_start_def launch_def
        applyPreset_finish_def json_body_def get_prop_def edit_with_def onCheckedChange_def
        effects_list_Obj opt_chain_def)

section \<open>The generation request\<close>

text \<open>
  C5. When the script is empty after trimming, \<open>generateVideo\<close> returns at its guard: it
  shows the alert, sends no request, and the state of the generator (progress, busy
  flag, stored descriptor, and everything else) is what it was.
\<close>

theorem blank_script_sends_nothing:
  assumes "trim (script st) = []"
  shows "generateVideo_start st = Returned st [Alert ''Please enter a script'']
         \<and> generateVideo rs out st = (st, [Alert ''Please enter a script''])
         \<and> requests (snd (generateVideo rs out st)) = []"
  using assms by (simp add: generateVideo_def generateVideo_start_def)

theorem blank_script_sends_nothing_witness:
  "trim [CHR 0x20, CHR 0x0A, CHR 0x09] = []
   \<and> generateVideo [1 / 2] (Resolved True (Inr Null))
        (generator_init\<lparr>script := [CHR 0x20, CHR 0x0A, CHR 0x09]\<rparr>)
      = (generator_init\<lparr>script := [CHR 0x20, CHR 0x0A, CHR 0x09]\<rparr>, [Alert ''Please enter a script''])"
proof -
  have h: "trim (script (generator_init\<lparr>script := [CHR 0x20, CHR 0x0A, CHR 0x09]\<rparr>)) = []"
    by (simp add: trim_def js_white_def)
  from h blank_script_sends_nothing [OF h, of "[1 / 2]" "Resolved True (Inr Null)"]
  show ?thesis by simp
qed

lemma tick_bounds:
  assumes "0 \<le> r" "r < 1" "0 \<le> progress s" "progress s < 100"
  shows "0 \<le> progress (progress_tick r s) \<and> progress (progress_tick r s) < 100"
  using assms by (auto simp: progress_tick_def)

lemma ticks_bounds:
  assumes "\<forall>r\<in>set rs. 0 \<le> r \<and> r < 1" "0 \<le> progress s" "progress s < 100"
  shows "0 \<le> progress (progress_ticks rs s) \<and> progress (progress_ticks rs s) < 100"
  using assms
proof (induction rs arbitrary: s)
  case Nil
  then show ?case by simp
next
  case (Cons r rs)
  then have "0 \<le> r" "r < 1" by simp_all
  from tick_bounds [OF this Cons.prems(2,3)] Cons.IH [of "progress_tick r s"] Cons.prems(1)
  show ?case by simp
qed

text \<open>
  C9. A generation request that passes the guard sets the progress to 0. While the
  request is outstanding, however often the timer fires and whatever numbers in
  \<open>[0, 1)\<close> \<open>Math.random()\<close> returns, the progress stays at or above 0 and strictly below
  100; a firing below 90 adds ten times the random number, a firing at 90 or above
  sets the progress to 90 and stops the timer. A successful reply stores the
  descriptor and sets the progress to 100, where later firings leave it.
\<close>

theorem progress_capped_until_reply:
  assumes "trim (script st) \<noteq> []" and "\<forall>r\<in>set rs. 0 \<le> r \<and> r < 1"
  shows "\<exists>st1 fx. generateVideo_start st = Awaiting st1 fx
           \<and> progress st1 = 0
           \<and> 0 \<le> progress (progress_ticks rs st1)
           \<and> progress (progress_ticks rs st1) < 100
           \<and> (\<forall>r. progressInterval (progress_ticks rs st1) \<and> progress (progress_ticks rs st1) < 90 \<longrightarrow>
                 progress (progress_tick r (progress_ticks rs st1)) = progress (progress_ticks rs st1) + r * 10)
           \<and> (\<forall>r. progressInterval (progress_ticks rs st1) \<and> progress (progress_ticks rs st1) \<ge> 90 \<longrightarrow>
                 progress (progress_tick r (progress_ticks rs st1)) = 90)
           \<and> progress (fst (generateVideo rs (Resolved True (Inr data)) st)) = 100
           \<and> generatedVideo (fst (generateVideo rs (Resolved True (Inr data)) st)) = data
           \<and> (\<forall>r. progress (progress_tick r (fst (generateVideo rs (Resolved True (Inr data)) st))) = 100)"
proof -
  let ?st1 = "st\<lparr>isGenerating := True, progress := 0, progressInterval := True\<rparr>"
  let ?fx = "[Fetch (Request ''/api/video/generate'' ''POST'' (Some (generate_body st)))]"
  have start: "generateVideo_start st = Awaiting ?st1 ?fx"
    using assms(1) by (simp add: generateVideo_start_def)
  have b: "0 \<le> progress (progress_ticks rs ?st1) \<and> progress (progress_ticks rs ?st1) < 100"
    by (rule ticks_bounds [OF assms(2)]) simp_all
  have fin: "fst (generateVideo rs (Resolved True (Inr data)) st) =
      (progress_ticks rs ?st1)\<lparr>generatedVideo := data, progress := 100, progressInterval := False,
              isGenerating := False\<rparr>"
    by (simp add: generateVideo_def start generateVideo_finish_def json_body_def is_ok_def)
  show ?thesis
    using start b fin by (simp add: progress_tick_def)
qed

theorem progress_capped_until_reply_witness:
  "trim ''A cat'' \<noteq> []
   \<and> (0::real) \<le> 1 / 2 \<and> (1::real) / 2 < 1 \<and> (0::real) \<le> 9 / 10 \<and> (9::real) / 10 < 1
   \<and> (\<exists>st1 fx. generateVideo_start (generator_init\<lparr>script := ''A cat''\<rparr>) = Awaiting st1 fx
         \<and> progress st1 = 0
         \<and> progress (progress_ticks [1 / 2, 9 / 10] st1) = 14
         \<and> progress (progress_ticks [1 / 2, 9 / 10] st1) < 100)
   \<and> progress (fst (generateVideo [1 / 2, 9 / 10]
        (Resolved True (Inr (Obj (fmap_of_list [(''video_id'', Str ''v1'')]))))
        (generator_init\<lparr>script := ''A cat''\<rparr>))) = 100"
proof -
  have h1: "trim (script (generator_init\<lparr>script := ''A cat''\<rparr>)) \<noteq> []"
    by (simp add: trim_def js_white_def)
  have h2: "\<forall>r\<in>set [1 / 2, 9 / 10 :: real]. 0 \<le> r \<and> r < 1" by simp
  from progress_capped_until_reply [OF h1 h2, of "Obj (fmap_of_list [(''video_id'', Str ''v1'')])"]
  obtain st1 fx where s: "generateVideo_start (generator_init\<lparr>script := ''A cat''\<rparr>) = Awaiting st1 fx"
    and p0: "progress st1 = 0"
    and lt: "progress (progress_ticks [1 / 2, 9 / 10] st1) < 100"
    and fin: "progress (fst (generateVideo [1 / 2, 9 / 10]
        (Resolved True (Inr (Obj (fmap_of_list [(''video_id'', Str ''v1'')]))))
        (generator_init\<lparr>script := ''A cat''\<rparr>))) = 100"
    by blast
  from s have "st1 = generator_init\<lparr>script := ''A cat'', isGenerating := True, progress := 0, progressInterval := True\<rparr>"
    using h1 by (simp add: generateVideo_start_def)
  then have v: "progress (progress_ticks [1 / 2, 9 / 10] st1) = 14"
    by (simp add: progress_tick_def)
  from h1 s p0 lt fin v show ?thesis by auto
qed

section \<open>The upload to Azure\<close>

lemma uploadToAzure_finish_failed:
  assumes "out = Rejected e \<or> out = Resolved False body"
  shows "\<exists>err. uploadToAzure_finish out st = upload_failed err st"
  using assms
proof
  assume "out = Rejected e"
  then show ?thesis by (auto simp: uploadToAzure_finish_def json_body_def)
next
  assume o: "out = Resolved False body"
  show ?thesis
  proof (cases body)
    case (Inl x)
    with o show ?thesis by (auto simp: uploadToAzure_finish_def json_body_def)
  next
    case (Inr data)
    obtain x where "throw_error data ''Failed to upload to Azure'' = (Inl x :: js_error + unit)"
      using throw_error_Inl by blast
    with o Inr show ?thesis by (auto simp: uploadToAzure_finish_def json_body_def is_ok_def)
  qed
qed

text \<open>
  C7. When the upload request fails (\<open>fetch\<close> throws, or the response is not ok),
  \<open>uploadToAzure\<close> ends with \<open>streamingInfo\<close>, \<open>videoAnalysis\<close> and \<open>uploadStatus\<close> holding
  what they held before the call, and it has sent no other request than the upload
  itself: \<open>createStreamingEndpoints\<close> is not called.
\<close>

theorem failed_upload_keeps_results:
  assumes "out = Rejected e \<or> out = Resolved False body"
  shows "streamingInfo (fst (uploadToAzure videoPath out st)) = streamingInfo st
         \<and> videoAnalysis (fst (uploadToAzure videoPath out st)) = videoAnalysis st
         \<and> uploadStatus (fst (uploadToAzure videoPath out st)) = uploadStatus st
         \<and> (\<forall>r \<in> set (requests (snd (uploadToAzure videoPath out st))). r = upload_request videoPath)
         \<and> (truthy videoPath \<longrightarrow>
              (\<exists>err. uploadToAzure videoPath out st =
                 (st\<lparr>isUploading := False\<rparr>,
                  [Fetch (upload_request videoPath),
                   ConsoleError ''Error uploading to Azure:'' err,
                   Alert (''Error uploading to Azure: '' @ message err)])))"
proof -
  obtain err where "uploadToAzure_finish out (st\<lparr>isUploading := True\<rparr>) = upload_failed err (st\<lparr>isUploading := True\<rparr>)"
    using uploadToAzure_finish_failed [OF assms] by blast
  then show ?thesis
    by (auto simp: uploadToAzure_def uploadToAzure_start_def upload_failed_def)
qed

theorem failed_upload_keeps_results_witness:
  "truthy (Str ''/videos/clip.mp4'')
   \<and> streamingInfo (fst (uploadToAzure (Str ''/videos/clip.mp4'')
       (Resolved False (Inr (Obj (fmap_of_list [(''error'', Str ''Quota exceeded'')]))))
       (ui mounted\<lparr>streamingInfo := Str ''old-endpoints'', videoAnalysis := Str ''old-insights''\<rparr>)))
     = Str ''old-endpoints''
   \<and> videoAnalysis (fst (uploadToAzure (Str ''/videos/clip.mp4'')
       (Resolved False (Inr (Obj (fmap_of_list [(''error'', Str ''Quota exceeded'')]))))
       (ui mounted\<lparr>streamingInfo := Str ''old-endpoints'', videoAnalysis := Str ''old-insights''\<rparr>)))
     = Str ''old-insights''
   \<and> requests (snd (uploadToAzure (Str ''/videos/clip.mp4'')
       (Resolved False (Inr (Obj (fmap_of_list [(''error'', Str ''Quota exceeded'')]))))
       (ui mounted\<lparr>streamingInfo := Str ''old-endpoints'', videoAnalysis := Str ''old-insights''\<rparr>)))
     = [upload_request (Str ''/videos/clip.mp4'')]"
proof -
  let ?out = "Resolved False (Inr (Obj (fmap_of_list [(''error'', Str ''Quota exceeded'')])))"
  let ?st = "ui mounted\<lparr>streamingInfo := Str ''old-endpoints'', videoAnalysis := Str ''old-insights''\<rparr>"
  let ?run = "uploadToAzure (Str ''/videos/clip.mp4'') ?out ?st"
  have h: "?out = Rejected (Error []) \<or> ?out = Resolved False (Inr (Obj (fmap_of_list [(''error'', Str ''Quota exceeded'')])))"
    by simp
  have t: "truthy (Str ''/videos/clip.mp4'')" by simp
  note kept = failed_upload_keeps_results [OF h, of "Str ''/videos/clip.mp4''" ?st]
  from kept have 1: "streamingInfo (fst ?run) = Str ''old-endpoints''" by simp
  from kept have 2: "videoAnalysis (fst ?run) = Str ''old-insights''" by simp
  from kept t obtain err where "?run =
                 (?st\<lparr>isUploading := False\<rparr>,
                  [Fetch (upload_request (Str ''/videos/clip.mp4'')),
                   ConsoleError ''Error uploading to Azure:'' err,
                   Alert (''Error uploading to Azure: '' @ message err)])"
    by blast
  then have 3: "requests (snd ?run) = [upload_request (Str ''/videos/clip.mp4'')]" by simp
  from t 1 2 3 show ?thesis by blast
qed

section \<open>Outstanding requests of a panel\<close>

lemma filter_remove1_in:
  "r \<in> set xs \<Longrightarrow> P r \<Longrightarrow> Suc (length (filter P (remove1 r xs))) = length (filter P xs)"
  by (induction xs) auto

lemma filter_remove1_out:
  "\<not> P r \<Longrightarrow> filter P (remove1 r xs) = filter P xs"
  by (induction xs) auto

lemma checkAzureStatus_finish_flags:
  "isUploading (fst (checkAzureStatus_finish out st)) = isUploading st
   \<and> isAnalyzing (fst (checkAzureStatus_finish out st)) = isAnalyzing st
   \<and> requests (snd (checkAzureStatus_finish out st)) = []"
  by (auto simp: checkAzureStatus_finish_def split: sum.splits)

lemma createStreamingEndpoints_finish_flags:
  "isUploading (fst (createStreamingEndpoints_finish out st)) = isUploading st
   \<and> isAnalyzing (fst (createStreamingEndpoints_finish out st)) = isAnalyzing st
   \<and> requests (snd (createStreamingEndpoints_finish out st)) = []"
  by (auto simp: createStreamingEndpoints_finish_def and_then_def split: sum.splits if_splits)

lemma analyzeVideo_finish_flags:
  "isUploading (fst (analyzeVideo_finish out st)) = isUploading st
   \<and> \<not> isAnalyzing (fst (analyzeVideo_finish out st))
   \<and> requests (snd (analyzeVideo_finish out st)) = []"
  by (auto simp: analyzeVideo_finish_def split: sum.splits)

lemma workflow_results_flags:
  "workflow_results w st = Inr st' \<Longrightarrow> isAnalyzing st' = isAnalyzing st"
  by (auto simp: workflow_results_def and_then_def Let_def split: sum.splits if_splits)

lemma runCompleteWorkflow_finish_flags:
  "\<not> isUploading (fst (runCompleteWorkflow_finish out st))
   \<and> isAnalyzing (fst (runCompleteWorkflow_finish out st)) = isAnalyzing st
   \<and> requests (snd (runCompleteWorkflow_finish out st)) = []"
  by (auto simp: runCompleteWorkflow_finish_def and_then_def throw_error_def
        dest: workflow_results_flags split: sum.splits if_splits)

lemma uploadToAzure_finish_flags:
  "\<not> isUploading (fst (uploadToAzure_finish out st))
   \<and> isAnalyzing (fst (uploadToAzure_finish out st)) = isAnalyzing st
   \<and> list_all (\<lambda>r. url r = ''/api/azure/stream'') (requests (snd (uploadToAzure_finish out st)))"
  by (auto simp: uploadToAzure_finish_def upload_failed_def createStreamingEndpoints_start_def
        stream_request_def split: sum.splits)

lemma fire_click_upload:
  assumes "flags_match p" "fire videoPath ClickUpload p = Some p'"
  shows "flags_match p'"
  using assms
  by (auto simp: flags_match_def upload_disabled_def uploadToAzure_start_def add_requests_def
        uploads_in_flight_def analyses_in_flight_def upload_request_def known_url_def
        split: if_splits)

lemma fire_click_workflow:
  assumes "flags_match p" "fire videoPath ClickWorkflow p = Some p'"
  shows "flags_match p'"
  using assms
  by (auto simp: flags_match_def upload_disabled_def runCompleteWorkflow_start_def add_requests_def
        uploads_in_flight_def analyses_in_flight_def workflow_request_def known_url_def
        split: if_splits)

lemma fire_click_analyze:
  assumes "flags_match p" "fire videoPath ClickAnalyze p = Some p'"
  shows "flags_match p'"
  using assms
  by (auto simp: flags_match_def analyze_disabled_def analyzeVideo_start_def add_requests_def
        uploads_in_flight_def analyses_in_flight_def analyze_request_def known_url_def
        split: if_splits)

lemma fire_arrives:
  assumes inv: "flags_match p" and f: "fire videoPath (Arrives r out) p = Some p'"
  shows "flags_match p'"
proof -
  from f have mem: "r \<in> set (in_flight p)"
    and p': "p' = \<lparr>ui = fst (resume r out (ui p)),
                   in_flight = remove1 r (in_flight p) @ requests (snd (resume r out (ui p)))\<rparr>"
    by (auto split: if_splits prod.splits)
  from inv mem have known: "known_url (url r)"
    by (auto simp: flags_match_def list_all_iff)
  let ?U = "\<lambda>r. url r = ''/api/azure/upload'' \<or> url r = ''/api/azure/workflow''"
  let ?A = "\<lambda>r. url r = ''/api/azure/analyze''"
  from inv have rest: "list_all (\<lambda>r. known_url (url r)) (remove1 r (in_flight p))"
    by (auto simp: flags_match_def list_all_iff dest: notin_set_remove1)
  consider (status) "url r = ''/api/azure/status''" | (upload) "url r = ''/api/azure/upload''"
    | (stream) "url r = ''/api/azure/stream''" | (analyze) "url r = ''/api/azure/analyze''"
    | (workflow) "url r = ''/api/azure/workflow''"
    using known by (auto simp: known_url_def)
  then show ?thesis
  proof cases
    case status
    then have nu: "\<not> ?U r" and na: "\<not> ?A r" by simp_all
    show ?thesis
      using inv rest checkAzureStatus_finish_flags [of out "ui p"] status
      by (simp add: p' flags_match_def resume_def uploads_in_flight_def analyses_in_flight_def
            filter_remove1_out [of ?U, OF nu] filter_remove1_out [of ?A, OF na])
  next
    case stream
    then have nu: "\<not> ?U r" and na: "\<not> ?A r" by simp_all
    show ?thesis
      using inv rest createStreamingEndpoints_finish_flags [of out "ui p"] stream
      by (simp add: p' flags_match_def resume_def uploads_in_flight_def analyses_in_flight_def
            filter_remove1_out [of ?U, OF nu] filter_remove1_out [of ?A, OF na])
  next
    case analyze
    then have nu: "\<not> ?U r" and a: "?A r" by simp_all
    from filter_remove1_in [of r "in_flight p" ?A, OF mem a] inv
    have cnt: "length (filter ?A (remove1 r (in_flight p))) = 0"
      by (auto simp: flags_match_def analyses_in_flight_def split: if_splits)
    show ?thesis
      using inv rest analyzeVideo_finish_flags [of out "ui p"] analyze cnt
      by (simp add: p' flags_match_def resume_def uploads_in_flight_def analyses_in_flight_def
            filter_remove1_out [of ?U, OF nu])
  next
    case upload
    then have u: "?U r" and na: "\<not> ?A r" by simp_all
    from filter_remove1_in [of r "in_flight p" ?U, OF mem u] inv
    have cnt: "length (filter ?U (remove1 r (in_flight p))) = 0"
      by (auto simp: flags_match_def uploads_in_flight_def split: if_splits)
    let ?new = "requests (snd (uploadToAzure_finish out (ui p)))"
    from uploadToAzure_finish_flags [of out "ui p"]
    have new: "list_all (\<lambda>r. url r = ''/api/azure/stream'') ?new" by simp
    then have "filter ?U ?new = []" "filter ?A ?new = []"
      "list_all (\<lambda>r. known_url (url r)) ?new"
      by (auto simp: list_all_iff known_url_def filter_empty_conv)
    then show ?thesis
      using inv rest uploadToAzure_finish_flags [of out "ui p"] upload cnt
      by (simp add: p' flags_match_def resume_def uploads_in_flight_def analyses_in_flight_def
            filter_remove1_out [of ?A, OF na])
  next
    case workflow
    then have u: "?U r" and na: "\<not> ?A r" by simp_all
    from filter_remove1_in [of r "in_flight p" ?U, OF mem u] inv
    have cnt: "length (filter ?U (remove1 r (in_flight p))) = 0"
      by (auto simp: flags_match_def uploads_in_flight_def split: if_splits)
    show ?thesis
      using inv rest runCompleteWorkflow_finish_flags [of out "ui p"] workflow cnt
      by (simp add: p' flags_match_def resume_def uploads_in_flight_def analyses_in_flight_def
            filter_remove1_out [of ?A, OF na])
  qed
qed

lemma fire_keeps_flags_match:
  "flags_match p \<Longrightarrow> fire videoPath ev p = Some p' \<Longrightarrow> flags_match p'"
  by (cases ev) (blast intro: fire_click_upload fire_click_analyze fire_click_workflow fire_arrives)+

lemma run_keeps_flags_match:
  "flags_match p \<Longrightarrow> run videoPath evs p = Some p' \<Longrightarrow> flags_match p'"
proof (induction evs arbitrary: p)
  case Nil
  then show ?case by simp
next
  case (Cons ev evs)
  then show ?case
    by (auto split: option.splits dest: fire_keeps_flags_match)
qed

lemma mounted_flags_match: "flags_match mounted"
  by (simp add: flags_match_def mounted_def uploads_in_flight_def analyses_in_flight_def
        status_request_def known_url_def)

lemma applyPreset_finish_isEditing:
  "isEditing (fst (applyPreset_finish k out st)) = isEditing st"
  by (auto simp: applyPreset_finish_def split: sum.splits)

lemma saveEdits_finish_isEditing:
  "\<not> isEditing (fst (saveEdits_finish h out st))"
  by (auto simp: saveEdits_finish_def split: sum.splits)

lemma editor_step_keeps_flag:
  assumes inv: "edits_in_flight p = (if isEditing (ed p) then 1 else 0)"
    and st: "editor_step vp h ev p = Some (q, fx)"
  shows "edits_in_flight q = (if isEditing (ed q) then 1 else 0)"
proof (cases ev)
  case (ClickPreset k)
  with st have "q = \<lparr>ed = ed p, waiting = waiting p @ [(Request ''/api/editor/presets'' ''GET'' None, AwaitsPresets k)]\<rparr>"
    by (simp add: applyPreset_start_def launch_def)
  with inv show ?thesis
    by (simp add: edits_in_flight_def)
next
  case ClickApplyEdits
  with st have en: "\<not> isEditing (ed p)" "truthy vp"
    by (auto split: if_splits)
  with st ClickApplyEdits have "q = \<lparr>ed = (ed p)\<lparr>isEditing := True\<rparr>,
      waiting = waiting p @ [(Request ''/api/editor/edit'' ''POST'' (Some (edit_body vp (editConfig (ed p)))), AwaitsEdit)]\<rparr>"
    by (simp add: saveEdits_start_def launch_def)
  with inv en show ?thesis
    by (simp add: edits_in_flight_def)
next
  case (Uses e)
  with st obtain c where "q = p\<lparr>ed := (ed p)\<lparr>editConfig := c\<rparr>\<rparr>"
    by (auto simp: edit_with_def and_then_def split: sum.splits)
  with inv show ?thesis
    by (simp add: edits_in_flight_def)
next
  case (EditorArrives r w out)
  let ?E = "\<lambda>rw :: request \<times> editor_wait. snd rw = AwaitsEdit"
  from st EditorArrives have mem: "(r, w) \<in> set (waiting p)"
    by (auto split: if_splits)
  show ?thesis
  proof (cases w)
    case (AwaitsPresets k)
    with st EditorArrives mem
    have q: "q = \<lparr>ed = fst (applyPreset_finish k out (ed p)), waiting = remove1 (r, w) (waiting p)\<rparr>"
      by (simp split: prod.splits)
    from AwaitsPresets have "\<not> ?E (r, w)" by simp
    from filter_remove1_out [of ?E, OF this]
    have "filter ?E (remove1 (r, w) (waiting p)) = filter ?E (waiting p)" .
    with inv q show ?thesis
      by (simp add: edits_in_flight_def applyPreset_finish_isEditing)
  next
    case AwaitsEdit
    with st EditorArrives mem
    have q: "q = \<lparr>ed = fst (saveEdits_finish h out (ed p)), waiting = remove1 (r, w) (waiting p)\<rparr>"
      by (simp split: prod.splits)
    from AwaitsEdit have "?E (r, w)" by simp
    from filter_remove1_in [of "(r, w)" "waiting p" ?E, OF mem this] inv
    have "length (filter ?E (remove1 (r, w) (waiting p))) = 0"
      by (simp add: edits_in_flight_def split: if_splits)
    with q saveEdits_finish_isEditing [of h out "ed p"] show ?thesis
      by (simp add: edits_in_flight_def)
  qed
qed

lemma fetchStyles_finish_flag:
  "isGenerating (fst (fetchStyles_finish out st)) = isGenerating st
   \<and> requests (snd (fetchStyles_finish out st)) = []"
  by (auto simp: fetchStyles_finish_def split: sum.splits)

lemma generateVideo_finish_flag:
  "\<not> isGenerating (fst (generateVideo_finish out st))
   \<and> requests (snd (generateVideo_finish out st)) = []"
  by (auto simp: generateVideo_finish_def split: sum.splits)

lemma progress_tick_flag: "isGenerating (progress_tick r st) = isGenerating st"
  by (simp add: progress_tick_def)

lemma generator_fire_keeps_flag:
  assumes inv: "generator_flag_matches p" and st: "generator_fire ev p = Some q"
  shows "generator_flag_matches q"
proof (cases ev)
  case (SetScript s)
  with inv st show ?thesis
    by (auto simp: generator_flag_matches_def generations_in_flight_def)
next
  case (SetSelectedStyle s)
  with inv st show ?thesis
    by (auto simp: generator_flag_matches_def generations_in_flight_def)
next
  case (SetDuration d)
  with inv st show ?thesis
    by (auto simp: generator_flag_matches_def generations_in_flight_def)
next
  case (SetAspectRatio a)
  with inv st show ?thesis
    by (auto simp: generator_flag_matches_def generations_in_flight_def)
next
  case ClickGenerate
  with st have en: "\<not> isGenerating (gen p)" "trim (script (gen p)) \<noteq> []"
    by (auto simp: generate_disabled_def split: if_splits)
  with st ClickGenerate
  have "q = \<lparr>gen = (gen p)\<lparr>isGenerating := True, progress := 0, progressInterval := True\<rparr>,
             gen_in_flight = gen_in_flight p @
               [Request ''/api/video/generate'' ''POST'' (Some (generate_body (gen p)))]\<rparr>"
    by (simp add: generate_disabled_def generateVideo_start_def)
  with inv en show ?thesis
    by (simp add: generator_flag_matches_def generations_in_flight_def)
next
  case (TimerFires r)
  with st have "q = p\<lparr>gen := progress_tick r (gen p)\<rparr>"
    by (auto split: if_splits)
  with inv show ?thesis
    by (simp add: generator_flag_matches_def generations_in_flight_def progress_tick_flag)
next
  case (GeneratorArrives r out)
  let ?G = "\<lambda>r. url r = ''/api/video/generate''"
  from st GeneratorArrives have mem: "r \<in> set (gen_in_flight p)"
    by (auto split: if_splits)
  with st GeneratorArrives
  have q: "q = \<lparr>gen = fst (generator_resume r out (gen p)),
                 gen_in_flight = remove1 r (gen_in_flight p) @ requests (snd (generator_resume r out (gen p)))\<rparr>"
    by (simp split: prod.splits)
  from inv have rest: "list_all (\<lambda>r. url r = ''/api/styles/list'' \<or> url r = ''/api/video/generate'')
      (remove1 r (gen_in_flight p))"
    by (auto simp: generator_flag_matches_def list_all_iff dest: notin_set_remove1)
  from inv mem consider (styles) "url r = ''/api/styles/list''" | (generate) "url r = ''/api/video/generate''"
    by (auto simp: generator_flag_matches_def list_all_iff)
  then show ?thesis
  proof cases
    case styles
    then have "\<not> ?G r" by simp
    from filter_remove1_out [of ?G, OF this]
    have "filter ?G (remove1 r (gen_in_flight p)) = filter ?G (gen_in_flight p)" .
    with inv rest q styles fetchStyles_finish_flag [of out "gen p"] show ?thesis
      by (simp add: generator_flag_matches_def generations_in_flight_def generator_resume_def)
  next
    case generate
    from filter_remove1_in [of r "gen_in_flight p" ?G, OF mem generate] inv
    have "length (filter ?G (remove1 r (gen_in_flight p))) = 0"
      by (simp add: generator_flag_matches_def generations_in_flight_def split: if_splits)
    with rest q generate generateVideo_finish_flag [of out "gen p"] show ?thesis
      by (simp add: generator_flag_matches_def generations_in_flight_def generator_resume_def)
  qed
qed

lemma generator_run_keeps_flag:
  "generator_flag_matches p \<Longrightarrow> generator_run evs p = Some q \<Longrightarrow> generator_flag_matches q"
proof (induction evs arbitrary: p)
  case Nil
  then show ?case by simp
next
  case (Cons ev evs)
  then show ?case
    by (auto split: option.splits dest: generator_fire_keeps_flag)
qed

lemma generator_mounted_flag: "generator_flag_matches generator_mounted"
  by (simp add: generator_flag_matches_def generator_mounted_def generations_in_flight_def
        styles_request_def generator_init_def)

lemma editor_run_keeps_flag:
  "edits_in_flight p = (if isEditing (ed p) then 1 else 0) \<Longrightarrow>
   editor_run vp h evs p = Some q \<Longrightarrow>
   edits_in_flight q = (if isEditing (ed q) then 1 else 0)"
proof (induction evs arbitrary: p)
  case Nil
  then show ?case by simp
next
  case (Cons ev evs)
  from Cons.prems(2) obtain p1 fx where 1: "editor_step vp h ev p = Some (p1, fx)"
    and 2: "editor_run vp h evs p1 = Some q"
    by (auto simp: editor_fire_def split: option.splits)
  from Cons.IH [OF editor_step_keeps_flag [OF Cons.prems(1) 1] 2] show ?case .
qed

lemma editor_mounted_flag:
  "edits_in_flight editor_mounted = (if isEditing (ed editor_mounted) then 1 else 0)"
  by (simp add: editor_mounted_def editor_init_def edits_in_flight_def)

lemma client_fire_keeps_flags:
  assumes inv: "flags_guard c" and st: "client_fire ev c = Some c'"
  shows "flags_guard c'"
proof (cases ev)
  case (InGenerator e)
  with st obtain g where "generator_fire e (generator_tab c) = Some g" "c' = c\<lparr>generator_tab := g\<rparr>"
    by (auto split: option.splits)
  with inv show ?thesis
    by (auto simp: flags_guard_def dest: generator_fire_keeps_flag)
next
  case (InEditor e)
  with st obtain q fx where 1: "editor_step (currentVideoPath c) True e (editor_tab c) = Some (q, fx)"
    and 2: "c' = c\<lparr>editor_tab := q, currentVideoPath := handleVideoEdited fx (currentVideoPath c)\<rparr>"
    by (auto split: option.splits)
  from inv have "edits_in_flight (editor_tab c) = (if isEditing (ed (editor_tab c)) then 1 else 0)"
    by (simp add: flags_guard_def)
  from editor_step_keeps_flag [OF this 1] inv 2 show ?thesis
    by (simp add: flags_guard_def)
next
  case (InAzure e)
  with st obtain a where "fire (currentVideoPath c) e (azure_tab c) = Some a" "c' = c\<lparr>azure_tab := a\<rparr>"
    by (auto split: option.splits)
  with inv show ?thesis
    by (auto simp: flags_guard_def dest: fire_keeps_flags_match)
qed

lemma client_run_keeps_flags:
  "flags_guard c \<Longrightarrow> client_run evs c = Some c' \<Longrightarrow> flags_guard c'"
proof (induction evs arbitrary: c)
  case Nil
  then show ?case by simp
next
  case (Cons ev evs)
  then show ?case
    by (auto split: option.splits dest: client_fire_keeps_flags)
qed

lemma client_mounted_flags: "flags_guard client_mounted"
  by (simp add: flags_guard_def client_mounted_def generator_mounted_flag editor_mounted_flag
        mounted_flags_match)

text \<open>
  C8, as the code has it. In every execution of the client, and in every execution of
  each panel whatever video is selected, a busy flag admits at most one outstanding
  request of the actions it guards: the number of outstanding generation requests is 1
  while \<open>isGenerating\<close> is set and 0 otherwise, and so are the edit requests with
  \<open>isEditing\<close>, the upload and workflow requests with \<open>isUploading\<close>, and the analysis
  requests with \<open>isAnalyzing\<close>. A set flag disables the control that starts the action.
\<close>

theorem busy_flags_guard_their_requests:
  "(client_run evs client_mounted = Some c \<longrightarrow>
      generations_in_flight (generator_tab c) = (if isGenerating (gen (generator_tab c)) then 1 else 0)
      \<and> edits_in_flight (editor_tab c) = (if isEditing (ed (editor_tab c)) then 1 else 0)
      \<and> uploads_in_flight (azure_tab c) = (if isUploading (ui (azure_tab c)) then 1 else 0)
      \<and> analyses_in_flight (azure_tab c) = (if isAnalyzing (ui (azure_tab c)) then 1 else 0))
   \<and> (generator_run gevs generator_mounted = Some g \<longrightarrow>
        generations_in_flight g = (if isGenerating (gen g) then 1 else 0))
   \<and> (editor_run videoPath has_onSave eevs editor_mounted = Some q \<longrightarrow>
        edits_in_flight q = (if isEditing (ed q) then 1 else 0))
   \<and> (run videoPath aevs mounted = Some a \<longrightarrow>
        uploads_in_flight a = (if isUploading (ui a) then 1 else 0)
        \<and> analyses_in_flight a = (if isAnalyzing (ui a) then 1 else 0))"
proof (intro conjI impI)
  assume "client_run evs client_mounted = Some c"
  from client_run_keeps_flags [OF client_mounted_flags this]
  have g: "flags_guard c" .
  then show "generations_in_flight (generator_tab c) = (if isGenerating (gen (generator_tab c)) then 1 else 0)"
    by (simp add: flags_guard_def generator_flag_matches_def)
  from g show "edits_in_flight (editor_tab c) = (if isEditing (ed (editor_tab c)) then 1 else 0)"
    by (simp add: flags_guard_def)
  from g show "uploads_in_flight (azure_tab c) = (if isUploading (ui (azure_tab c)) then 1 else 0)"
    by (simp add: flags_guard_def flags_match_def)
  from g show "analyses_in_flight (azure_tab c) = (if isAnalyzing (ui (azure_tab c)) then 1 else 0)"
    by (simp add: flags_guard_def flags_match_def)
next
  assume "generator_run gevs generator_mounted = Some g"
  from generator_run_keeps_flag [OF generator_mounted_flag this]
  show "generations_in_flight g = (if isGenerating (gen g) then 1 else 0)"
    by (simp add: generator_flag_matches_def)
next
  assume "editor_run videoPath has_onSave eevs editor_mounted = Some q"
  from editor_run_keeps_flag [OF editor_mounted_flag this]
  show "edits_in_flight q = (if isEditing (ed q) then 1 else 0)" .
next
  assume r: "run videoPath aevs mounted = Some a"
  from run_keeps_flags_match [OF mounted_flags_match r]
  show "uploads_in_flight a = (if isUploading (ui a) then 1 else 0)"
    by (simp add: flags_match_def)
  from run_keeps_flags_match [OF mounted_flags_match r]
  show "analyses_in_flight a = (if isAnalyzing (ui a) then 1 else 0)"
    by (simp add: flags_match_def)
qed

lemma trim_A_cat: "trim ''A cat'' = ''A cat''"
  by (simp add: trim_def js_white_def)

theorem busy_flags_guard_their_requests_witness:
  "(\<exists>c. client_run [InGenerator (SetScript ''A cat''), InGenerator ClickGenerate,
                     InEditor (ClickPreset ''cinematic'')] client_mounted = Some c
        \<and> isGenerating (gen (generator_tab c))
        \<and> generations_in_flight (generator_tab c) = 1
        \<and> client_fire (InGenerator ClickGenerate) c = None)
   \<and> (\<exists>g. generator_run [SetScript ''A cat'', ClickGenerate] generator_mounted = Some g
        \<and> isGenerating (gen g)
        \<and> generations_in_flight g = 1
        \<and> generator_fire ClickGenerate g = None)
   \<and> (\<exists>q. editor_run (Str ''/videos/clip.mp4'') True [ClickApplyEdits] editor_mounted = Some q
        \<and> isEditing (ed q)
        \<and> edits_in_flight q = 1
        \<and> editor_fire (Str ''/videos/clip.mp4'') True ClickApplyEdits q = None)
   \<and> (\<exists>a. run (Str ''/videos/clip.mp4'')
              [Arrives status_request
                 (Resolved True (Inr (Obj (fmap_of_list [(''configured'', Bool True)])))),
               ClickUpload] mounted = Some a
        \<and> isUploading (ui a)
        \<and> uploads_in_flight a = 1
        \<and> fire (Str ''/videos/clip.mp4'') ClickUpload a = None)"
proof -
  let ?g = "\<lparr>gen = generator_init\<lparr>script := ''A cat'', isGenerating := True, progress := 0,
                                     progressInterval := True\<rparr>,
             gen_in_flight = [styles_request,
                Request ''/api/video/generate'' ''POST''
                  (Some (generate_body (generator_init\<lparr>script := ''A cat''\<rparr>)))]\<rparr>"
  let ?q = "\<lparr>ed = editor_init\<lparr>isEditing := True\<rparr>,
             waiting = [(Request ''/api/editor/edit'' ''POST''
                          (Some (edit_body (Str ''/videos/clip.mp4'') (Obj fmempty))), AwaitsEdit)]\<rparr>"
  let ?a = "\<lparr>ui = (ui mounted)\<lparr>azureStatus := Obj (fmap_of_list [(''configured'', Bool True)]),
                               isUploading := True\<rparr>,
             in_flight = [upload_request (Str ''/videos/clip.mp4'')]\<rparr>"
  let ?c = "client_mounted\<lparr>generator_tab := ?g,
              editor_tab := \<lparr>ed = editor_init,
                 waiting = [(Request ''/api/editor/presets'' ''GET'' None, AwaitsPresets ''cinematic'')]\<rparr>\<rparr>"
  have rg: "generator_run [SetScript ''A cat'', ClickGenerate] generator_mounted = Some ?g"
    by (simp add: generator_mounted_def generate_disabled_def generateVideo_start_def trim_A_cat
          generator_init_def)
  have rc: "client_run [InGenerator (SetScript ''A cat''), InGenerator ClickGenerate,
                     InEditor (ClickPreset ''cinematic'')] client_mounted = Some ?c"
    by (simp add: client_mounted_def generator_mounted_def generate_disabled_def
          generateVideo_start_def trim_A_cat generator_init_def editor_mounted_def
          applyPreset_start_def launch_def)
  have rq: "editor_run (Str ''/videos/clip.mp4'') True [ClickApplyEdits] editor_mounted = Some ?q"
    by (simp add: editor_fire_def editor_mounted_def editor_init_def saveEdits_start_def launch_def)
  have ra: "run (Str ''/videos/clip.mp4'')
              [Arrives status_request
                 (Resolved True (Inr (Obj (fmap_of_list [(''configured'', Bool True)])))),
               ClickUpload] mounted = Some ?a"
    by (simp add: mounted_def status_request_def upload_request_def resume_def
        checkAzureStatus_finish_def json_body_def upload_disabled_def opt_chain_def
        uploadToAzure_start_def add_requests_def)
  note guard = busy_flags_guard_their_requests
      [of "[InGenerator (SetScript ''A cat''), InGenerator ClickGenerate,
            InEditor (ClickPreset ''cinematic'')]" ?c
          "[SetScript ''A cat'', ClickGenerate]" ?g
          "Str ''/videos/clip.mp4''" True "[ClickApplyEdits]" ?q
          "[Arrives status_request
                 (Resolved True (Inr (Obj (fmap_of_list [(''configured'', Bool True)])))),
               ClickUpload]" ?a]
  from guard rc have c1: "generations_in_flight (generator_tab ?c) = 1" by simp
  from guard rg have g1: "generations_in_flight ?g = 1" by simp
  from guard rq have q1: "edits_in_flight ?q = 1" by simp
  from guard ra have a1: "uploads_in_flight ?a = 1" by simp
  have c2: "client_fire (InGenerator ClickGenerate) ?c = None"
    by (simp add: generate_disabled_def)
  have g2: "generator_fire ClickGenerate ?g = None"
    by (simp add: generate_disabled_def)
  have q2: "editor_fire (Str ''/videos/clip.mp4'') True ClickApplyEdits ?q = None"
    by (simp add: editor_fire_def)
  have a2: "fire (Str ''/videos/clip.mp4'') ClickUpload ?a = None"
    by (simp add: upload_disabled_def)
  have "\<exists>c. client_run [InGenerator (SetScript ''A cat''), InGenerator ClickGenerate,
                     InEditor (ClickPreset ''cinematic'')] client_mounted = Some c
        \<and> isGenerating (gen (generator_tab c))
        \<and> generations_in_flight (generator_tab c) = 1
        \<and> client_fire (InGenerator ClickGenerate) c = None"
    using rc c1 c2 by (intro exI [of _ ?c]) simp
  moreover have "\<exists>g. generator_run [SetScript ''A cat'', ClickGenerate] generator_mounted = Some g
        \<and> isGenerating (gen g)
        \<and> generations_in_flight g = 1
        \<and> generator_fire ClickGenerate g = None"
    using rg g1 g2 by (intro exI [of _ ?g]) simp
  moreover have "\<exists>q. editor_run (Str ''/videos/clip.mp4'') True [ClickApplyEdits] editor_mounted = Some q
        \<and> isEditing (ed q)
        \<and> edits_in_flight q = 1
        \<and> editor_fire (Str ''/videos/clip.mp4'') True ClickApplyEdits q = None"
    using rq q1 q2 by (intro exI [of _ ?q]) simp
  moreover have "\<exists>a. run (Str ''/videos/clip.mp4'')
              [Arrives status_request
                 (Resolved True (Inr (Obj (fmap_of_list [(''configured'', Bool True)])))),
               ClickUpload] mounted = Some a
        \<and> isUploading (ui a)
        \<and> uploads_in_flight a = 1
        \<and> fire (Str ''/videos/clip.mp4'') ClickUpload a = None"
    using ra a1 a2 by (intro exI [of _ ?a]) simp
  ultimately show ?thesis by blast
qed

text \<open>
  C8, as it is stated, fails: a panel can have several requests outstanding. No flag
  guards the preset buttons of the editor: in the client, two clicks on preset buttons
  leave two preset requests outstanding.
\<close>

theorem two_requests_in_flight:
  "client_run [InEditor (ClickPreset ''cinematic''), InEditor (ClickPreset ''fast_paced'')]
     client_mounted
   = Some (client_mounted
       \<lparr>editor_tab :=
          \<lparr>ed = editor_init,
           waiting = [(Request ''/api/editor/presets'' ''GET'' None, AwaitsPresets ''cinematic''),
                      (Request ''/api/editor/presets'' ''GET'' None, AwaitsPresets ''fast_paced'')]\<rparr>\<rparr>)"
  by (simp add: client_mounted_def editor_mounted_def applyPreset_start_def launch_def)

text \<open>
  The client never selects a video: \<open>onVideoGenerated\<close> is never called, and \<open>onSave\<close> is
  only called after an edit request, which needs a selected video. So in the client the
  buttons that need one stay disabled.
\<close>

lemma handleVideoEdited_none:
  "on_save_calls fx = [] \<Longrightarrow> handleVideoEdited fx path = path"
  by (induction fx path rule: handleVideoEdited.induct) simp_all

lemma applyPreset_finish_no_save:
  "on_save_calls (snd (applyPreset_finish k out st)) = []"
  by (auto simp: applyPreset_finish_def split: sum.splits)

lemma client_fire_keeps_no_video:
  assumes inv: "no_video c" and st: "client_fire ev c = Some c'"
  shows "no_video c'"
proof (cases ev)
  case (InGenerator e)
  with inv st show ?thesis by (auto simp: no_video_def split: option.splits)
next
  case (InAzure e)
  with inv st show ?thesis by (auto simp: no_video_def split: option.splits)
next
  case (InEditor e)
  from inv have path: "currentVideoPath c = Null" by (simp add: no_video_def)
  from st InEditor obtain q fx where 1: "editor_step Null True e (editor_tab c) = Some (q, fx)"
    and 2: "c' = c\<lparr>editor_tab := q, currentVideoPath := handleVideoEdited fx Null\<rparr>"
    by (auto simp: path split: option.splits)
  have "on_save_calls fx = [] \<and> (\<forall>rw \<in> set (waiting q). snd rw \<noteq> AwaitsEdit)"
  proof (cases e)
    case (ClickPreset k)
    with 1 inv show ?thesis
      by (auto simp: applyPreset_start_def launch_def no_video_def)
  next
    case ClickApplyEdits
    with 1 show ?thesis by simp
  next
    case (Uses u)
    with 1 inv show ?thesis
      by (auto simp: no_video_def split: sum.splits)
  next
    case (EditorArrives r w out)
    with 1 have mem: "(r, w) \<in> set (waiting (editor_tab c))"
      by (auto split: if_splits)
    with inv obtain k where w: "w = AwaitsPresets k"
      by (cases w) (auto simp: no_video_def)
    with 1 EditorArrives mem
    have "q = \<lparr>ed = fst (applyPreset_finish k out (ed (editor_tab c))),
               waiting = remove1 (r, w) (waiting (editor_tab c))\<rparr>"
      and "fx = snd (applyPreset_finish k out (ed (editor_tab c)))"
      by (simp_all split: prod.splits)
    with inv show ?thesis
      by (auto simp: no_video_def applyPreset_finish_no_save dest: notin_set_remove1)
  qed
  with 2 path show ?thesis
    by (simp add: no_video_def handleVideoEdited_none)
qed

lemma client_run_keeps_no_video:
  "no_video c \<Longrightarrow> client_run evs c = Some c' \<Longrightarrow> no_video c'"
proof (induction evs arbitrary: c)
  case Nil
  then show ?case by simp
next
  case (Cons ev evs)
  then show ?case
    by (auto split: option.splits dest: client_fire_keeps_no_video)
qed

lemma client_never_selects_a_video:
  assumes "client_run evs client_mounted = Some c"
  shows "currentVideoPath c = Null"
    and "client_fire (InEditor ClickApplyEdits) c = None"
    and "client_fire (InAzure ClickUpload) c = None"
    and "client_fire (InAzure ClickWorkflow) c = None"
proof -
  have "no_video client_mounted"
    by (simp add: no_video_def client_mounted_def editor_mounted_def)
  from client_run_keeps_no_video [OF this assms]
  show "currentVideoPath c = Null" by (simp add: no_video_def)
  then show "client_fire (InEditor ClickApplyEdits) c = None"
    and "client_fire (InAzure ClickUpload) c = None"
    and "client_fire (InAzure ClickWorkflow) c = None"
    by (simp_all add: upload_disabled_def)
qed

text \<open>
  The Azure panel on its own, given a selected video: after a first upload has
  succeeded, its streaming request (sent without \<open>await\<close>, guarded by no flag), a second
  upload and an analysis are outstanding together.
\<close>

lemma azure_panel_with_a_video:
  "run (Str ''/videos/clip.mp4'')
     [Arrives status_request (Resolved True (Inr (Obj (fmap_of_list [(''configured'', Bool True)])))),
      ClickUpload,
      Arrives (upload_request (Str ''/videos/clip.mp4''))
        (Resolved True (Inr (Obj (fmap_of_list [(''blob_url'', Str ''https://blob/clip.mp4'')])))),
      ClickUpload,
      ClickAnalyze] mounted
   = Some \<lparr>ui = \<lparr>azureStatus = Obj (fmap_of_list [(''configured'', Bool True)]),
                 uploadStatus = Obj (fmap_of_list [(''blob_url'', Str ''https://blob/clip.mp4'')]),
                 streamingInfo = Null, videoAnalysis = Null,
                 isUploading = True, isAnalyzing = True\<rparr>,
           in_flight = [stream_request (Str ''https://blob/clip.mp4''),
                        upload_request (Str ''/videos/clip.mp4''),
                        analyze_request (Str ''https://blob/clip.mp4'')]\<rparr>"
  by (simp add: mounted_def status_request_def upload_request_def stream_request_def
        analyze_request_def resume_def checkAzureStatus_finish_def json_body_def is_ok_def
        upload_disabled_def analyze_disabled_def opt_chain_def uploadToAzure_start_def
        uploadToAzure_finish_def createStreamingEndpoints_start_def analyzeVideo_start_def
        add_requests_def get_prop_def)

end
